theory Spec2Isabelle
  imports Main "HOL-Library.AList" "HOL-Library.Sublist" "HOL-Library.Monad_Syntax"
begin

section \<open>JavaScript strings\<close>

text \<open>
  The translator of \<^verbatim>\<open>src/modules/sdp/SDP.js\<close> works on strings. A JavaScript string is
  modelled as a \<^typ>\<open>string\<close>; the operations below are the ones the class calls on it.
\<close>

definition CRLF :: string where
  "CRLF = [CHR 0x0D, CHR 0x0A]"

text \<open>\<^verbatim>\<open>String.prototype.split\<close> with a string separator: the pieces between the leftmost,
  non-overlapping occurrences of the separator. The accumulator holds the piece being read.\<close>

function split_from :: "string \<Rightarrow> string \<Rightarrow> string \<Rightarrow> string list" where
  "split_from sep acc [] = [acc]"
| "split_from sep acc (c # cs) =
     (if sep \<noteq> [] \<and> take (length sep) (c # cs) = sep
      then acc # split_from sep [] (drop (length sep) (c # cs))
      else split_from sep (acc @ [c]) cs)"
  by pat_completeness auto
termination
  by (relation "measure (\<lambda>(sep, acc, s). length s)") auto

definition split :: "string \<Rightarrow> string \<Rightarrow> string list" where
  "split sep s = (if sep = [] then map (\<lambda>c. [c]) s else split_from sep [] s)"

text \<open>\<^verbatim>\<open>Array.prototype.join\<close> on an array of strings.\<close>

fun join :: "string \<Rightarrow> string list \<Rightarrow> string" where
  "join sep [] = []"
| "join sep [x] = x"
| "join sep (x # y # ys) = x @ sep @ join sep (y # ys)"

text \<open>\<^verbatim>\<open>String.prototype.includes\<close>: the argument occurs somewhere in the string.\<close>

fun str_includes :: "string \<Rightarrow> string \<Rightarrow> bool" where
  "str_includes sub [] = (sub = [])"
| "str_includes sub (c # cs) = (take (length sub) (c # cs) = sub \<or> str_includes sub cs)"

text \<open>\<^verbatim>\<open>String.prototype.toLowerCase\<close>, on the Latin letters \<^verbatim>\<open>A\<close> to \<^verbatim>\<open>Z\<close>; every other
  character is kept. (No character outside that range is lowered to a letter of the protocol
  names \<^verbatim>\<open>tcp\<close>, \<^verbatim>\<open>ssltcp\<close> and \<^verbatim>\<open>udp\<close> that the class compares the result with.)\<close>

definition lower_char :: "char \<Rightarrow> char" where
  "lower_char c =
     (if (65::nat) \<le> of_char c \<and> of_char c \<le> (90::nat) then char_of (of_char c + (32::nat)) else c)"

definition toLowerCase :: "string \<Rightarrow> string" where
  "toLowerCase s = map lower_char s"

text \<open>A decimal number as a template literal prints it.\<close>

fun show_nat :: "nat \<Rightarrow> string" where
  "show_nat n =
     (if n < 10 then [char_of (48 + n)] else show_nat (n div 10) @ [char_of (48 + n mod 10)])"

declare show_nat.simps [simp del]

text \<open>A value that may be \<^verbatim>\<open>null\<close> (what \<^verbatim>\<open>getAttribute\<close> gives for a missing attribute) or
  \<^verbatim>\<open>undefined\<close> (what jQuery's \<^verbatim>\<open>attr\<close> gives) is an option; a template literal prints the
  missing value by its name.\<close>

definition str_null :: "string option \<Rightarrow> string" where
  "str_null v = (case v of None \<Rightarrow> ''null'' | Some s \<Rightarrow> s)"

definition str_undef :: "string option \<Rightarrow> string" where
  "str_undef v = (case v of None \<Rightarrow> ''undefined'' | Some s \<Rightarrow> s)"

text \<open>A value used as a condition: a string is truthy when it is there and not empty.\<close>

definition truthy :: "string option \<Rightarrow> bool" where
  "truthy v = (case v of None \<Rightarrow> False | Some s \<Rightarrow> s \<noteq> [])"

section \<open>Signaling stanzas\<close>

text \<open>An XML node is an element (tag, attributes in document order, children) or a text node.\<close>

datatype xml = Elem string "(string \<times> string) list" "xml list" | Text string

fun tagName :: "xml \<Rightarrow> string option" where
  "tagName (Elem t a ks) = Some t"
| "tagName (Text s) = None"

fun attributes :: "xml \<Rightarrow> (string \<times> string) list" where
  "attributes (Elem t a ks) = a"
| "attributes (Text s) = []"

fun childNodes :: "xml \<Rightarrow> xml list" where
  "childNodes (Elem t a ks) = ks"
| "childNodes (Text s) = []"

definition getAttribute :: "xml \<Rightarrow> string \<Rightarrow> string option" where
  "getAttribute e k = map_of (attributes e) k"

definition hasAttribute :: "xml \<Rightarrow> string \<Rightarrow> bool" where
  "hasAttribute e k = (getAttribute e k \<noteq> None)"

fun setAttribute :: "string \<Rightarrow> string \<Rightarrow> xml \<Rightarrow> xml" where
  "setAttribute k v (Elem t a ks) = Elem t (AList.update k v a) ks"
| "setAttribute k v (Text s) = Text s"

text \<open>jQuery's \<^verbatim>\<open>text()\<close>: the text nodes below an element, in document order.\<close>

fun text_of :: "xml \<Rightarrow> string" where
  "text_of (Text s) = s"
| "text_of (Elem t a ks) = concat (map text_of ks)"

text \<open>A jQuery object is the list of its elements. \<^verbatim>\<open>find('>tag')\<close> and
  \<^verbatim>\<open>find(">tag[xmlns='ns']")\<close> select among the children of each of them.\<close>

definition tagged :: "string \<Rightarrow> xml \<Rightarrow> bool" where
  "tagged t e = (tagName e = Some t)"

definition tagged_ns :: "string \<Rightarrow> string \<Rightarrow> xml \<Rightarrow> bool" where
  "tagged_ns t ns e = (tagName e = Some t \<and> getAttribute e ''xmlns'' = Some ns)"

definition find_children :: "(xml \<Rightarrow> bool) \<Rightarrow> xml list \<Rightarrow> xml list" where
  "find_children sel es = concat (map (\<lambda>e. filter sel (childNodes e)) es)"

text \<open>jQuery's \<^verbatim>\<open>attr(name)\<close> reads the first element of the object.\<close>

definition jq_attr :: "xml list \<Rightarrow> string \<Rightarrow> string option" where
  "jq_attr es k = (case es of [] \<Rightarrow> None | e # _ \<Rightarrow> getAttribute e k)"

text \<open>jQuery's \<^verbatim>\<open>map(f).get()\<close> leaves out the elements for which \<^verbatim>\<open>f\<close> gives \<^verbatim>\<open>null\<close>.\<close>

definition map_get :: "(xml \<Rightarrow> string option) \<Rightarrow> xml list \<Rightarrow> string list" where
  "map_get f es = List.map_filter f es"

section \<open>What the class imports\<close>

text \<open>The constants of \<^verbatim>\<open>XEP\<close>, \<^verbatim>\<open>MediaDirection\<close> and \<^verbatim>\<open>MediaType\<close> and the capability test of
  \<^verbatim>\<open>browser\<close> are defined in modules that are not part of the sources at hand; they are taken
  as parameters.\<close>

record env =
  BUNDLE_MEDIA :: string
  ICE_UDP_TRANSPORT :: string
  SCTP_DATA_CHANNEL :: string
  DTLS_SRTP :: string
  RTP_FEEDBACK :: string
  RTP_HEADER_EXTENSIONS :: string
  SOURCE_ATTRIBUTES :: string
  RTP_MEDIA :: string
  INACTIVE :: string
  RECVONLY :: string
  SENDONLY :: string
  SENDRECV :: string
  AUDIO :: string
  VIDEO :: string
  APPLICATION :: string
  usesRidsForSimulcast :: bool

text \<open>The media line the line codec parses, and the one it builds.\<close>

record mline =
  m_media :: string
  m_port :: "string option"
  m_proto :: "string option"
  m_fmt :: "string list"

record mdesc =
  d_media :: "string option"
  d_port :: string
  d_proto :: string
  d_fmt :: "string list"

record rtcpfb =
  fb_pt :: "string option"
  fb_type :: "string option"
  fb_params :: "string list"

record extmap =
  e_value :: "string option"
  e_uri :: "string option"
  e_direction :: "string option"

text \<open>The functions of \<^verbatim>\<open>SDPUtil\<close> that the class calls; the module is not part of the
  sources at hand either. Each is a pure function of its arguments. An argument that may be
  \<^verbatim>\<open>false\<close> or \<^verbatim>\<open>undefined\<close> is an option, and so is a result that may be \<^verbatim>\<open>false\<close>,
  \<^verbatim>\<open>null\<close> or \<^verbatim>\<open>undefined\<close>; an object is the list of its properties.\<close>

record sdputil =
  findLine :: "string \<Rightarrow> string \<Rightarrow> string option \<Rightarrow> string option"
  findLines :: "string \<Rightarrow> string \<Rightarrow> string option \<Rightarrow> string list"
  parseMID :: "string option \<Rightarrow> string"
  parseMLine :: "string \<Rightarrow> mline"
  buildMLine :: "mdesc \<Rightarrow> string"
  buildICEUfrag :: "string \<Rightarrow> string"
  buildICEPwd :: "string \<Rightarrow> string"
  candidateFromJingle :: "xml \<Rightarrow> string"
  candidateToJingle :: "string \<Rightarrow> (string \<times> string) list option"
  buildRTPMap :: "xml \<Rightarrow> string"
  parseRTPMap :: "string option \<Rightarrow> (string \<times> string) list"
  parseFmtp :: "string \<Rightarrow> (string \<times> string) list list"
  filterSpecialChars :: "string option \<Rightarrow> string option"
  parseRTCPFB :: "string \<Rightarrow> rtcpfb"
  parseSSRC :: "string \<Rightarrow> (string \<times> string list) list"
  parseSourceNameLine :: "string list \<Rightarrow> string option"
  parseVideoTypeLine :: "string list \<Rightarrow> string option"
  parseMSIDAttribute :: "string list \<Rightarrow> string option"
  parseSSRCGroupLine :: "string \<Rightarrow> string option \<times> string list"
  parseExtmap :: "string \<Rightarrow> extmap"
  parseSCTPPort :: "string \<Rightarrow> string"
  parseSCTPMap :: "string \<Rightarrow> string option list"
  parseFingerprint :: "string \<Rightarrow> (string \<times> string) list"
  iceparams :: "string \<Rightarrow> string option \<Rightarrow> (string \<times> string) list option"

section \<open>The session model\<close>

text \<open>The fields of the class \<^verbatim>\<open>SDP\<close>. \<^verbatim>\<open>initialLastN\<close> is not set by the constructor; it
  is read by \<^verbatim>\<open>toJingle\<close>, which tests that it is a number and stores it in an attribute,
  that is as the text that JavaScript prints for the number (\<^verbatim>\<open>20\<close>, \<^verbatim>\<open>1.5\<close>, \<^verbatim>\<open>1e+21\<close>,
  \<^verbatim>\<open>NaN\<close>). The field is \<open>Some\<close> of that text when it holds a number and \<open>None\<close> when it
  holds anything else or nothing.\<close>

record SDP =
  isP2P :: bool
  media :: "string list"
  raw :: string
  session :: string
  failICE :: bool
  removeTcpCandidates :: bool
  removeUdpCandidates :: bool
  initialLastN :: "string option"

text \<open>The constructor. The text is split at \<^verbatim>\<open>"\r\nm="\<close>; every piece after the first gets its
  \<^verbatim>\<open>m=\<close> back and, unless it is the last one, its line end; the first piece, shifted off the
  array, is the session part.\<close>

definition SDP_new :: "string \<Rightarrow> bool \<Rightarrow> SDP" where
  "SDP_new sdp p =
     (let parts = split (CRLF @ ''m='') sdp;
          n = length parts;
          sections = map (\<lambda>i. ''m='' @ parts ! i @ (if i \<noteq> n - 1 then CRLF else [])) [1..<n];
          sess = (case parts of [] \<Rightarrow> ''undefined'' | p0 # _ \<Rightarrow> p0) @ CRLF
      in \<lparr> isP2P = p, media = sections, raw = sess @ concat sections, session = sess,
           failICE = False, removeTcpCandidates = False, removeUdpCandidates = False,
           initialLastN = None \<rparr>)"

section \<open>Stanza to description\<close>

text \<open>A loop that appends a piece of text to \<^verbatim>\<open>sdp\<close> for every element (jQuery's \<^verbatim>\<open>each\<close>).\<close>

definition each :: "('a \<Rightarrow> string) \<Rightarrow> 'a list \<Rightarrow> string" where
  "each f xs = fold (\<lambda>x sdp. sdp @ f x) xs []"

text \<open>\<^verbatim>\<open>rtcpFbFromJingle(elem, payloadtype)\<close>.\<close>

definition rtcpFbFromJingle :: "env \<Rightarrow> xml list \<Rightarrow> string option \<Rightarrow> string" where
  "rtcpFbFromJingle K elem payloadtype =
     (let feedbackElementTrrInt =
            find_children (tagged_ns ''rtcp-fb-trr-int'' (RTP_FEEDBACK K)) elem;
          feedbackElements = find_children (tagged_ns ''rtcp-fb'' (RTP_FEEDBACK K)) elem
      in (if feedbackElementTrrInt \<noteq> []
          then ''a=rtcp-fb:* trr-int ''
               @ (if truthy (jq_attr feedbackElementTrrInt ''value'')
                  then str_undef (jq_attr feedbackElementTrrInt ''value'') else ''0'')
               @ CRLF
          else [])
         @ each (\<lambda>fb. ''a=rtcp-fb:'' @ str_null payloadtype @ '' ''
                     @ str_null (getAttribute fb ''type'')
                     @ (if hasAttribute fb ''subtype''
                        then '' '' @ str_null (getAttribute fb ''subtype'') else [])
                     @ CRLF) feedbackElements)"

text \<open>\<^verbatim>\<open>jingle2media(content)\<close>, block by block. First the media line with the connection and
  RTCP lines.\<close>

definition j2m_mline :: "env \<Rightarrow> sdputil \<Rightarrow> xml \<Rightarrow> string" where
  "j2m_mline K U content =
     (let desc = find_children (tagged ''description'') [content];
          transport = find_children (tagged_ns ''transport'' (ICE_UDP_TRANSPORT K)) [content];
          sctp = find_children (tagged_ns ''sctpmap'' (SCTP_DATA_CHANNEL K)) transport;
          port = (if getAttribute content ''senders'' = Some ''rejected'' then ''0'' else ''9'');
          proto = (if find_children (tagged_ns ''fingerprint'' (DTLS_SRTP K)) transport \<noteq> []
                   then (if sctp \<noteq> [] then ''UDP/DTLS/SCTP'' else ''UDP/TLS/RTP/SAVPF'')
                   else ''UDP/TLS/RTP/SAVPF'')
      in (if sctp \<noteq> []
          then ''m=application '' @ port @ '' UDP/DTLS/SCTP webrtc-datachannel'' @ CRLF
               @ ''a=sctp-port:'' @ str_undef (jq_attr sctp ''number'') @ CRLF
               @ ''a=max-message-size:262144'' @ CRLF
          else buildMLine U \<lparr> d_media = jq_attr desc ''media'', d_port = port, d_proto = proto,
                 d_fmt = map_get (\<lambda>payloadType. getAttribute payloadType ''id'')
                           (find_children (tagged ''payload-type'') desc) \<rparr> @ CRLF)
         @ ''c=IN IP4 0.0.0.0'' @ CRLF
         @ (if sctp = [] then ''a=rtcp:1 IN IP4 0.0.0.0'' @ CRLF else []))"

text \<open>The ICE credentials and the fingerprints of the transport.\<close>

definition j2m_transport :: "env \<Rightarrow> sdputil \<Rightarrow> xml \<Rightarrow> string" where
  "j2m_transport K U content =
     (let transport = find_children (tagged_ns ''transport'' (ICE_UDP_TRANSPORT K)) [content]
      in if transport \<noteq> []
         then (if truthy (jq_attr transport ''ufrag'')
               then buildICEUfrag U (str_undef (jq_attr transport ''ufrag'')) @ CRLF else [])
              @ (if truthy (jq_attr transport ''pwd'')
                 then buildICEPwd U (str_undef (jq_attr transport ''pwd'')) @ CRLF else [])
              @ each (\<lambda>fingerprint.
                   ''a=fingerprint:'' @ str_null (getAttribute fingerprint ''hash'') @ '' ''
                   @ text_of fingerprint @ CRLF
                   @ (if hasAttribute fingerprint ''setup''
                      then ''a=setup:'' @ str_null (getAttribute fingerprint ''setup'') @ CRLF
                      else []))
                 (find_children (tagged_ns ''fingerprint'' (DTLS_SRTP K)) transport)
         else [])"

text \<open>The candidates. The test that drops a candidate is the same in both directions.\<close>

definition candidate_dropped :: "SDP \<Rightarrow> string \<Rightarrow> bool" where
  "candidate_dropped st protocol =
     ((removeTcpCandidates st \<and> (protocol = ''tcp'' \<or> protocol = ''ssltcp''))
      \<or> (removeUdpCandidates st \<and> protocol = ''udp''))"

definition j2m_candidate :: "sdputil \<Rightarrow> SDP \<Rightarrow> xml \<Rightarrow> string \<Rightarrow> string" where
  "j2m_candidate U st candidate sdp =
     (let protocol = (case getAttribute candidate ''protocol'' of
                        Some p \<Rightarrow> toLowerCase p | None \<Rightarrow> [])
      in if candidate_dropped st protocol then sdp
         else sdp @ candidateFromJingle U
                (if failICE st then setAttribute ''ip'' ''1.1.1.1'' candidate else candidate))"

definition j2m_candidates :: "env \<Rightarrow> sdputil \<Rightarrow> SDP \<Rightarrow> xml \<Rightarrow> string" where
  "j2m_candidates K U st content =
     fold (j2m_candidate U st)
       (find_children (tagged ''candidate'')
          (find_children (tagged_ns ''transport'' (ICE_UDP_TRANSPORT K)) [content])) []"

text \<open>The direction line, chosen by the \<^verbatim>\<open>senders\<close> attribute, and the mid line.\<close>

definition j2m_direction :: "env \<Rightarrow> xml \<Rightarrow> string" where
  "j2m_direction K content =
     (let senders = getAttribute content ''senders''
      in (if senders = Some ''initiator'' then ''a='' @ SENDONLY K @ CRLF
          else if senders = Some ''responder'' then ''a='' @ RECVONLY K @ CRLF
          else if senders = Some ''none'' then ''a='' @ INACTIVE K @ CRLF
          else if senders = Some ''both'' then ''a='' @ SENDRECV K @ CRLF
          else [])
         @ ''a=mid:'' @ str_undef (getAttribute content ''name'') @ CRLF)"

text \<open>The payload types with their parameters and feedback, the header extensions and the
  source groups of the description.\<close>

definition j2m_payload :: "env \<Rightarrow> sdputil \<Rightarrow> xml \<Rightarrow> string" where
  "j2m_payload K U payloadType =
     (let parameters = find_children (tagged ''parameter'') [payloadType]
      in buildRTPMap U payloadType @ CRLF
         @ (if parameters \<noteq> []
            then ''a=fmtp:'' @ str_null (getAttribute payloadType ''id'') @ '' ''
                 @ join '';'' (map (\<lambda>parameter.
                        (if truthy (getAttribute parameter ''name'')
                         then str_null (getAttribute parameter ''name'') @ ''='' else [])
                        @ str_null (getAttribute parameter ''value'')) parameters)
                 @ CRLF
            else [])
         @ rtcpFbFromJingle K [payloadType] (getAttribute payloadType ''id''))"

definition j2m_description :: "env \<Rightarrow> sdputil \<Rightarrow> xml \<Rightarrow> string" where
  "j2m_description K U content =
     (let desc = find_children (tagged ''description'') [content]
      in (if find_children (tagged ''rtcp-mux'') desc \<noteq> [] then ''a=rtcp-mux'' @ CRLF else [])
         @ each (j2m_payload K U) (find_children (tagged ''payload-type'') desc)
         @ rtcpFbFromJingle K desc (Some ''*'')
         @ each (\<lambda>hdrExt. ''a=extmap:'' @ str_null (getAttribute hdrExt ''id'') @ '' ''
                    @ str_null (getAttribute hdrExt ''uri'') @ CRLF)
             (find_children (tagged_ns ''rtp-hdrext'' (RTP_HEADER_EXTENSIONS K)) desc)
         @ (if find_children (tagged_ns ''extmap-allow-mixed'' (RTP_HEADER_EXTENSIONS K)) desc \<noteq> []
            then ''a=extmap-allow-mixed'' @ CRLF else [])
         @ each (\<lambda>ssrcGroup.
               let ssrcs = map_get (\<lambda>source. getAttribute source ''ssrc'')
                             (find_children (tagged ''source'') [ssrcGroup])
               in if ssrcs \<noteq> []
                  then ''a=ssrc-group:'' @ str_null (getAttribute ssrcGroup ''semantics'') @ '' ''
                       @ join '' '' ssrcs @ CRLF
                  else [])
             (find_children (tagged_ns ''ssrc-group'' (SOURCE_ATTRIBUTES K)) desc))"

text \<open>The sources. The loop over the parameters of a source builds its lines and decides
  whether it is a user source; the loop over the sources keeps the lines of the user sources
  apart from the others.\<close>

definition j2m_parameter ::
  "sdputil \<Rightarrow> string option \<Rightarrow> xml \<Rightarrow> string \<times> bool \<Rightarrow> string \<times> bool" where
  "j2m_parameter U ssrc parameter acc =
     (case acc of (sourceStr, isUserSource) \<Rightarrow>
        let name = getAttribute parameter ''name'';
            val = filterSpecialChars U (getAttribute parameter ''value'')
        in (sourceStr @ ''a=ssrc:'' @ str_null ssrc @ '' '' @ str_null name
              @ (if truthy val then '':'' @ str_undef val else []) @ CRLF,
            if (case val of Some v \<Rightarrow> str_includes ''mixedmslabel'' v | None \<Rightarrow> False)
            then False else isUserSource))"

definition source_loop :: "sdputil \<Rightarrow> xml \<Rightarrow> string \<times> bool" where
  "source_loop U source =
     fold (j2m_parameter U (getAttribute source ''ssrc''))
       (find_children (tagged ''parameter'') [source]) ([], True)"

definition j2m_source :: "sdputil \<Rightarrow> xml \<Rightarrow> string \<times> string \<Rightarrow> string \<times> string" where
  "j2m_source U source acc =
     (case acc of (userSources, nonUserSources) \<Rightarrow>
        case source_loop U source of
          (sourceStr, isUserSource) \<Rightarrow>
            if isUserSource then (userSources @ sourceStr, nonUserSources)
            else (userSources, nonUserSources @ sourceStr))"

definition sources_of :: "env \<Rightarrow> xml \<Rightarrow> xml list" where
  "sources_of K content =
     find_children (tagged_ns ''source'' (SOURCE_ATTRIBUTES K))
       (find_children (tagged ''description'') [content])"

definition jingle2media :: "env \<Rightarrow> sdputil \<Rightarrow> SDP \<Rightarrow> xml \<Rightarrow> string" where
  "jingle2media K U st content =
     (let sdp = j2m_mline K U content @ j2m_transport K U content @ j2m_candidates K U st content
                @ j2m_direction K content @ j2m_description K U content
      in case fold (j2m_source U) (sources_of K content) ([], []) of
           (userSources, nonUserSources) \<Rightarrow> sdp @ nonUserSources @ userSources)"

text \<open>\<^verbatim>\<open>fromJingle(jingle)\<close>. \<^verbatim>\<open>Date.now()\<close> is the argument \<^verbatim>\<open>sessionId\<close>.\<close>

definition group_line :: "xml \<Rightarrow> string \<Rightarrow> string" where
  "group_line group_el raw0 =
     (let contents = map_get (\<lambda>content. getAttribute content ''name'')
                       (find_children (tagged ''content'') [group_el])
      in if contents \<noteq> []
         then raw0 @ ''a=group:''
              @ (if truthy (getAttribute group_el ''semantics'')
                 then str_null (getAttribute group_el ''semantics'')
                 else str_null (getAttribute group_el ''type''))
              @ '' '' @ join '' '' contents @ CRLF
         else raw0)"

definition fromJingle :: "env \<Rightarrow> sdputil \<Rightarrow> nat \<Rightarrow> xml \<Rightarrow> SDP \<Rightarrow> SDP" where
  "fromJingle K U sessionId jingle st =
     (let raw0 = ''v=0'' @ CRLF @ ''o=- '' @ show_nat sessionId @ '' 2 IN IP4 0.0.0.0'' @ CRLF
                 @ ''s=-'' @ CRLF @ ''t=0 0'' @ CRLF;
          raw1 = fold group_line (find_children (tagged_ns ''group'' (BUNDLE_MEDIA K)) [jingle]) raw0;
          media1 = fold (\<lambda>content m. m @ [jingle2media K U st content])
                     (find_children (tagged ''content'') [jingle]) (media st)
      in st \<lparr> session := raw1, media := media1, raw := raw1 @ concat media1 \<rparr>)"

section \<open>The stanza builder\<close>

text \<open>\<^verbatim>\<open>toJingle\<close> writes into a Strophe builder: a tree (\<^verbatim>\<open>nodeTree\<close>) and a pointer to the
  node being built (\<^verbatim>\<open>node\<close>), here the path from the root to it, or \<^verbatim>\<open>null\<close> after
  \<^verbatim>\<open>up()\<close> has left the root. The class also queries and changes that same tree through jQuery,
  so the tree is kept whole and the pointer beside it.\<close>

record builder =
  nodeTree :: xml
  node :: "nat list option"

fun sub_at :: "nat list \<Rightarrow> xml \<Rightarrow> xml option" where
  "sub_at [] x = Some x"
| "sub_at (i # p) x =
     (if i < length (childNodes x) then sub_at p (childNodes x ! i) else None)"

fun upd_at :: "nat list \<Rightarrow> (xml \<Rightarrow> xml) \<Rightarrow> xml \<Rightarrow> xml" where
  "upd_at [] f x = f x"
| "upd_at (i # p) f x =
     (case x of
        Elem t a ks \<Rightarrow> if i < length ks then Elem t a (ks[i := upd_at p f (ks ! i)]) else x
      | Text s \<Rightarrow> x)"

fun appendChild :: "xml \<Rightarrow> xml \<Rightarrow> xml" where
  "appendChild child (Elem t a ks) = Elem t a (ks @ [child])"
| "appendChild child (Text s) = Text s"

text \<open>\<^verbatim>\<open>Strophe.xmlElement(name, attrs)\<close> sets the attributes whose value is neither
  \<^verbatim>\<open>undefined\<close> nor \<^verbatim>\<open>null\<close>.\<close>

definition xmlElement :: "string \<Rightarrow> (string \<times> string option) list \<Rightarrow> xml" where
  "xmlElement name attrs =
     Elem name (fold (\<lambda>kv a. case snd kv of None \<Rightarrow> a | Some v \<Rightarrow> AList.update (fst kv) v a)
                  attrs []) []"

definition defined :: "(string \<times> string) list \<Rightarrow> (string \<times> string option) list" where
  "defined obj = map (\<lambda>kv. (fst kv, Some (snd kv))) obj"

text \<open>The operations of the builder. Each one throws a \<^verbatim>\<open>TypeError\<close> (the result
  \<open>None\<close>) when the pointer is \<^verbatim>\<open>null\<close>.\<close>

definition with_node :: "builder \<Rightarrow> (nat list \<Rightarrow> xml \<Rightarrow> builder option) \<Rightarrow> builder option" where
  "with_node b f =
     (case node b of None \<Rightarrow> None
      | Some p \<Rightarrow> (case sub_at p (nodeTree b) of None \<Rightarrow> None | Some n \<Rightarrow> f p n))"

definition elem_c :: "string \<Rightarrow> (string \<times> string option) list \<Rightarrow> builder \<Rightarrow> builder option" where
  "elem_c name attrs b =
     with_node b (\<lambda>p n. Some (b \<lparr> nodeTree := upd_at p (appendChild (xmlElement name attrs)) (nodeTree b),
                                  node := Some (p @ [length (childNodes n)]) \<rparr>))"

definition elem_up :: "builder \<Rightarrow> builder option" where
  "elem_up b =
     with_node b (\<lambda>p n. Some (b \<lparr> node := (if p = [] then None else Some (butlast p)) \<rparr>))"

definition elem_attrs :: "(string \<times> string) list \<Rightarrow> builder \<Rightarrow> builder option" where
  "elem_attrs moreattrs b =
     with_node b (\<lambda>p n. Some (b \<lparr> nodeTree :=
        upd_at p (fold (\<lambda>kv. setAttribute (fst kv) (snd kv)) moreattrs) (nodeTree b) \<rparr>))"

definition elem_t :: "string \<Rightarrow> builder \<Rightarrow> builder option" where
  "elem_t txt b =
     with_node b (\<lambda>p n. Some (b \<lparr> nodeTree := upd_at p (appendChild (Text txt)) (nodeTree b) \<rparr>))"

text \<open>A \<^verbatim>\<open>forEach\<close> whose body may throw.\<close>

fun forEach :: "('a \<Rightarrow> 'b \<Rightarrow> 'b option) \<Rightarrow> 'a list \<Rightarrow> 'b \<Rightarrow> 'b option" where
  "forEach f [] b = Some b"
| "forEach f (x # xs) b = (case f x b of None \<Rightarrow> None | Some b' \<Rightarrow> forEach f xs b')"


text \<open>jQuery on the builder's tree. A selector that does not start with the child combinator
  matches at any depth below the root, in document order; \<open>upd_first\<close> applies a change to
  the first node of a forest, in that order, that satisfies a test.\<close>

fun upd_first :: "(xml \<Rightarrow> bool) \<Rightarrow> (xml \<Rightarrow> xml) \<Rightarrow> xml list \<Rightarrow> xml list option" where
  "upd_first P f [] = None"
| "upd_first P f (Text s # xs) =
     (if P (Text s) then Some (f (Text s) # xs)
      else map_option ((#) (Text s)) (upd_first P f xs))"
| "upd_first P f (Elem t a ks # xs) =
     (if P (Elem t a ks) then Some (f (Elem t a ks) # xs)
      else case upd_first P f ks of
             Some ks' \<Rightarrow> Some (Elem t a ks' # xs)
           | None \<Rightarrow> map_option ((#) (Elem t a ks)) (upd_first P f xs))"

text \<open>\<^verbatim>\<open>$(content).find('description').append(x)\<close> for every \<^verbatim>\<open>x\<close> of a list: each description
  below the content gets the new elements after its children.\<close>

fun append_in :: "xml list \<Rightarrow> xml \<Rightarrow> xml" where
  "append_in new (Text s) = Text s"
| "append_in new (Elem t a ks) =
     Elem t a (map (append_in new) ks @ (if t = ''description'' then new else []))"

fun append_to_descriptions :: "xml list \<Rightarrow> xml \<Rightarrow> xml" where
  "append_to_descriptions new (Text s) = Text s"
| "append_to_descriptions new (Elem t a ks) = Elem t a (map (append_in new) ks)"

fun set_children :: "xml list \<Rightarrow> xml \<Rightarrow> xml" where
  "set_children ks' (Elem t a ks) = Elem t a ks'"
| "set_children ks' (Text s) = Text s"

section \<open>Description to stanza\<close>

text \<open>\<^verbatim>\<open>rtcpFbToJingle(mediaIndex, elem, payloadtype)\<close>. Reading \<^verbatim>\<open>this.media[mediaIndex]\<close>
  outside the array gives \<^verbatim>\<open>undefined\<close>, which has no lines to search.\<close>

definition rtcpfb_step :: "env \<Rightarrow> sdputil \<Rightarrow> string \<Rightarrow> builder \<Rightarrow> builder option" where
  "rtcpfb_step K U line elem =
     (let feedback = parseRTCPFB U line
      in if fb_type feedback = Some ''trr-int''
         then elem_c ''rtcp-fb-trr-int''
                [(''xmlns'', Some (RTP_FEEDBACK K)),
                 (''value'', case fb_params feedback of [] \<Rightarrow> None | v # _ \<Rightarrow> Some v)] elem
              \<bind> elem_up
         else elem_c ''rtcp-fb''
                [(''xmlns'', Some (RTP_FEEDBACK K)), (''type'', fb_type feedback)] elem
              \<bind> (\<lambda>e. case fb_params feedback of
                          [] \<Rightarrow> Some e
                        | v # _ \<Rightarrow> elem_attrs [(''subtype'', v)] e)
              \<bind> elem_up)"

definition rtcpFbToJingle ::
  "env \<Rightarrow> sdputil \<Rightarrow> SDP \<Rightarrow> nat \<Rightarrow> builder \<Rightarrow> string \<Rightarrow> builder option" where
  "rtcpFbToJingle K U st mediaIndex elem payloadtype =
     (if mediaIndex < length (media st)
      then forEach (rtcpfb_step K U)
             (findLines U (media st ! mediaIndex) (''a=rtcp-fb:'' @ payloadtype) None) elem
      else None)"

text \<open>\<^verbatim>\<open>transportToJingle(mediaIndex, elem)\<close>.\<close>

definition sctp_step :: "env \<Rightarrow> sdputil \<Rightarrow> SDP \<Rightarrow> string \<Rightarrow> builder \<Rightarrow> builder option" where
  "sctp_step K U st mediaItem elem =
     (let sctpport = findLine U mediaItem ''a=sctp-port:'' (Some (session st));
          sctpmap = findLine U mediaItem ''a=sctpmap:'' (Some (session st))
      in if truthy sctpport
         then elem_c ''sctpmap''
                [(''xmlns'', Some (SCTP_DATA_CHANNEL K)),
                 (''number'', Some (parseSCTPPort U (str_undef sctpport))),
                 (''protocol'', Some ''webrtc-datachannel'')] elem
              \<bind> elem_attrs [(''streams'', ''0'')]
              \<bind> elem_up
         else if truthy sctpmap
         then (let sctpAttrs = parseSCTPMap U (str_undef sctpmap)
               in elem_c ''sctpmap''
                    [(''xmlns'', Some (SCTP_DATA_CHANNEL K)),
                     (''number'', if 0 < length sctpAttrs then sctpAttrs ! 0 else None),
                     (''protocol'', if 1 < length sctpAttrs then sctpAttrs ! 1 else None)] elem
                  \<bind> elem_attrs
                        [(''streams'',
                          if 2 < length sctpAttrs then str_null (sctpAttrs ! 2) else ''0'')]
                  \<bind> elem_up)
         else Some elem)"

definition fingerprint_step ::
  "env \<Rightarrow> sdputil \<Rightarrow> SDP \<Rightarrow> string \<Rightarrow> string \<Rightarrow> builder \<Rightarrow> builder option" where
  "fingerprint_step K U st mediaItem line elem =
     (let fingerprint = AList.update ''xmlns'' (DTLS_SRTP K) (parseFingerprint U line);
          setupLine = findLine U mediaItem ''a=setup:'' (Some (session st));
          fingerprint' = AList.delete ''fingerprint'' fingerprint
      in elem_c ''fingerprint'' [] elem
         \<bind> elem_t (str_undef (map_of fingerprint ''fingerprint''))
         \<bind> elem_attrs (if truthy setupLine
                          then AList.update ''setup'' (drop 8 (str_undef setupLine)) fingerprint'
                          else fingerprint')
         \<bind> elem_up)"

text \<open>A candidate line. With \<^verbatim>\<open>failICE\<close> set the address is assigned before the test that the
  candidate is an object, so a line the codec does not parse (\<^verbatim>\<open>null\<close>) throws.\<close>

definition candidate_step :: "sdputil \<Rightarrow> SDP \<Rightarrow> string \<Rightarrow> builder \<Rightarrow> builder option" where
  "candidate_step U st line elem =
     (case (if failICE st
            then (case candidateToJingle U line of
                    None \<Rightarrow> None
                  | Some cand \<Rightarrow> Some (Some (AList.update ''ip'' ''1.1.1.1'' cand)))
            else Some (candidateToJingle U line)) of
        None \<Rightarrow> None
      | Some candidate \<Rightarrow>
          (let protocol = (case candidate of
                             None \<Rightarrow> []
                           | Some cand \<Rightarrow> (case map_of cand ''protocol'' of
                                             None \<Rightarrow> [] | Some p \<Rightarrow> toLowerCase p))
           in if candidate_dropped st protocol then Some elem
              else elem_c ''candidate''
                     (case candidate of None \<Rightarrow> [] | Some cand \<Rightarrow> defined cand) elem
                   \<bind> elem_up))"

definition transportToJingle ::
  "env \<Rightarrow> sdputil \<Rightarrow> SDP \<Rightarrow> nat \<Rightarrow> builder \<Rightarrow> builder option" where
  "transportToJingle K U st mediaIndex elem =
     (if mediaIndex < length (media st)
      then (let mediaItem = media st ! mediaIndex
            in elem_c ''transport'' [] elem
               \<bind> sctp_step K U st mediaItem
               \<bind> forEach (fingerprint_step K U st mediaItem)
                      (findLines U mediaItem ''a=fingerprint:'' (Some (session st)))
               \<bind> (\<lambda>e. case iceparams U mediaItem (Some (session st)) of
                           None \<Rightarrow> Some e
                         | Some iceParameters \<Rightarrow>
                             elem_attrs (AList.update ''xmlns'' (ICE_UDP_TRANSPORT K) iceParameters) e
                             \<bind> forEach (candidate_step U st)
                                    (findLines U mediaItem ''a=candidate:'' (Some (session st))))
               \<bind> elem_up)
      else None)"

text \<open>\<^verbatim>\<open>toJingle(elem, thecreator)\<close>. First the group elements, one for each group line of the
  session part.\<close>

definition group_step :: "env \<Rightarrow> sdputil \<Rightarrow> SDP \<Rightarrow> string \<Rightarrow> builder \<Rightarrow> builder option" where
  "group_step K U st line elem =
     (case split '' '' line of
        [] \<Rightarrow> None
      | part # _ \<Rightarrow>
          elem_c ''group'' [(''xmlns'', Some (BUNDLE_MEDIA K)), (''semantics'', Some (drop 8 part))] elem
          \<bind> forEach (\<lambda>type e. elem_c ''content'' [(''name'', Some type)] e \<bind> elem_up)
                 (if isP2P st
                  then map (\<lambda>mediaItem. parseMID U (findLine U mediaItem ''a=mid:'' None)) (media st)
                  else [AUDIO K, VIDEO K, ''data''])
          \<bind> elem_up)"

text \<open>The elements built from the SSRC lines and the SSRC-group lines of a section, as
  \<^verbatim>\<open>Strophe.xmlElement\<close> builds them for a content that exists already.\<close>

definition source_element :: "env \<Rightarrow> sdputil \<Rightarrow> string \<times> string list \<Rightarrow> xml" where
  "source_element K U entry =
     (let source = xmlElement ''source''
                     [(''ssrc'', Some (fst entry)),
                      (''name'', parseSourceNameLine U (snd entry)),
                      (''videoType'', parseVideoTypeLine U (snd entry)),
                      (''xmlns'', Some (SOURCE_ATTRIBUTES K))];
          msid = parseMSIDAttribute U (snd entry)
      in if truthy msid
         then appendChild (xmlElement ''parameter'' [(''name'', Some ''msid''), (''value'', msid)]) source
         else source)"

definition ssrc_group_elements :: "env \<Rightarrow> sdputil \<Rightarrow> string \<Rightarrow> xml list" where
  "ssrc_group_elements K U mediaItem =
     concat (map (\<lambda>line.
        case parseSSRCGroupLine U line of (semantics, ssrcs) \<Rightarrow>
          if ssrcs \<noteq> []
          then [fold (\<lambda>v grp. appendChild (xmlElement ''source'' [(''ssrc'', Some v)]) grp) ssrcs
                  (xmlElement ''ssrc-group''
                     [(''semantics'', semantics), (''xmlns'', Some (SOURCE_ATTRIBUTES K))])]
          else [])
       (findLines U mediaItem ''a=ssrc-group:'' None))"

definition is_created_content :: "string \<Rightarrow> xml \<Rightarrow> bool" where
  "is_created_content mediaType x =
     (tagName x = Some ''content'' \<and> getAttribute x ''name'' = Some mediaType
      \<and> hasAttribute x ''creator'')"

text \<open>The same elements, written through the builder into a content that is being created.\<close>

definition source_step :: "env \<Rightarrow> sdputil \<Rightarrow> string \<times> string list \<Rightarrow> builder \<Rightarrow> builder option" where
  "source_step K U entry elem =
     elem_c ''source''
       [(''ssrc'', Some (fst entry)),
        (''name'', parseSourceNameLine U (snd entry)),
        (''videoType'', parseVideoTypeLine U (snd entry)),
        (''xmlns'', Some (SOURCE_ATTRIBUTES K))] elem
     \<bind> (\<lambda>e. if truthy (parseMSIDAttribute U (snd entry))
               then elem_c ''parameter'' [] e
                    \<bind> elem_attrs [(''name'', ''msid''),
                                     (''value'', str_undef (parseMSIDAttribute U (snd entry)))]
                    \<bind> elem_up
               else Some e)
     \<bind> elem_up"

definition ssrc_group_step :: "env \<Rightarrow> sdputil \<Rightarrow> string \<Rightarrow> builder \<Rightarrow> builder option" where
  "ssrc_group_step K U line elem =
     (case parseSSRCGroupLine U line of (semantics, ssrcs) \<Rightarrow>
        if ssrcs \<noteq> []
        then elem_c ''ssrc-group''
               [(''semantics'', semantics), (''xmlns'', Some (SOURCE_ATTRIBUTES K))] elem
             \<bind> forEach (\<lambda>s e. elem_c ''source'' [(''ssrc'', Some s)] e \<bind> elem_up) ssrcs
             \<bind> elem_up
        else Some elem)"

text \<open>The sources named by RID lines. \<^verbatim>\<open>ridLine.split(':')[1]\<close> is \<^verbatim>\<open>undefined\<close> for a line
  without a colon.\<close>

definition rid_of :: "string \<Rightarrow> string option" where
  "rid_of ridLine =
     (case split '':'' ridLine of
        _ # x # _ \<Rightarrow> (case split '' '' x of [] \<Rightarrow> None | r # _ \<Rightarrow> Some r)
      | _ \<Rightarrow> None)"

definition rid_step :: "env \<Rightarrow> sdputil \<Rightarrow> string \<Rightarrow> builder \<Rightarrow> builder option" where
  "rid_step K U mediaItem elem =
     (let ridLines = findLines U mediaItem ''a=rid:'' None
      in if ridLines \<noteq> [] \<and> usesRidsForSimulcast K
         then (case those (map rid_of ridLines) of
                 None \<Rightarrow> None
               | Some rids \<Rightarrow>
                   forEach (\<lambda>rid e. elem_c ''source''
                              [(''rid'', Some rid), (''xmlns'', Some (SOURCE_ATTRIBUTES K))] e
                            \<bind> elem_up) rids elem
                   \<bind> (\<lambda>e. if truthy (findLine U mediaItem ''a=simulcast:'' None)
                             then elem_c ''rid-group''
                                    [(''semantics'', Some ''SIM''),
                                     (''xmlns'', Some (SOURCE_ATTRIBUTES K))] e
                                  \<bind> forEach (\<lambda>rid e'. elem_c ''source'' [(''rid'', Some rid)] e'
                                                 \<bind> elem_up) rids
                                  \<bind> elem_up
                             else Some e))
         else Some elem)"

text \<open>A header extension. The \<^verbatim>\<open>senders\<close> attribute is set on the node the builder points
  at, which here is the extension element just opened.\<close>

definition extmap_step :: "env \<Rightarrow> sdputil \<Rightarrow> string \<Rightarrow> builder \<Rightarrow> builder option" where
  "extmap_step K U extmapLine elem =
     (let extmap = parseExtmap U extmapLine
      in elem_c ''rtp-hdrext''
           [(''xmlns'', Some (RTP_HEADER_EXTENSIONS K)), (''uri'', e_uri extmap),
            (''id'', e_value extmap)] elem
         \<bind> (\<lambda>e. if e_direction extmap = Some (SENDONLY K) then elem_attrs [(''senders'', ''responder'')] e
                   else if e_direction extmap = Some (RECVONLY K) then elem_attrs [(''senders'', ''initiator'')] e
                   else if e_direction extmap = Some (SENDRECV K) then elem_attrs [(''senders'', ''both'')] e
                   else if e_direction extmap = Some (INACTIVE K) then elem_attrs [(''senders'', ''none'')] e
                   else Some e)
         \<bind> elem_up)"

definition payload_step ::
  "env \<Rightarrow> sdputil \<Rightarrow> SDP \<Rightarrow> nat \<Rightarrow> string \<Rightarrow> string \<Rightarrow> builder \<Rightarrow> builder option" where
  "payload_step K U st i mediaItem format elem =
     (let rtpmap = findLine U mediaItem (''a=rtpmap:'' @ format) None;
          afmtpline = findLine U mediaItem (''a=fmtp:'' @ format) None
      in elem_c ''payload-type'' (defined (parseRTPMap U rtpmap)) elem
         \<bind> (\<lambda>e. if truthy afmtpline
                   then forEach (\<lambda>param e'. elem_c ''parameter'' (defined param) e' \<bind> elem_up)
                          (parseFmtp U (str_undef afmtpline)) e
                   else Some e)
         \<bind> (\<lambda>e. rtcpFbToJingle K U st i e format)
         \<bind> elem_up)"

definition description_step ::
  "env \<Rightarrow> sdputil \<Rightarrow> SDP \<Rightarrow> nat \<Rightarrow> string \<Rightarrow> mline \<Rightarrow> string \<Rightarrow> string option \<Rightarrow>
   builder \<Rightarrow> builder option" where
  "description_step K U st i mediaItem ml mediaType ssrc elem =
     elem_c ''description'' [(''xmlns'', Some (RTP_MEDIA K)), (''media'', Some mediaType)] elem
     \<bind> forEach (payload_step K U st i mediaItem) (m_fmt ml)
     \<bind> (\<lambda>e. if truthy ssrc
               then forEach (source_step K U) (parseSSRC U mediaItem) e
                    \<bind> forEach (ssrc_group_step K U) (findLines U mediaItem ''a=ssrc-group:'' None)
               else Some e)
     \<bind> rid_step K U mediaItem
     \<bind> (\<lambda>e. if truthy (findLine U mediaItem ''a=rtcp-mux'' None)
               then elem_c ''rtcp-mux'' [] e \<bind> elem_up else Some e)
     \<bind> (\<lambda>e. rtcpFbToJingle K U st i e ''*'')
     \<bind> forEach (extmap_step K U) (findLines U mediaItem ''a=extmap:'' (Some (session st)))
     \<bind> (\<lambda>e. if truthy (findLine U mediaItem ''a=extmap-allow-mixed'' (Some (session st)))
               then elem_c ''extmap-allow-mixed'' [(''xmlns'', Some (RTP_HEADER_EXTENSIONS K))] e
                    \<bind> elem_up
               else Some e)
     \<bind> elem_up"

text \<open>The \<^verbatim>\<open>senders\<close> attribute of a new content: from the direction line, then
  \<^verbatim>\<open>rejected\<close> for port 0 without a bundle-only line.\<close>

definition senders_step :: "env \<Rightarrow> sdputil \<Rightarrow> SDP \<Rightarrow> string \<Rightarrow> mline \<Rightarrow> builder \<Rightarrow> builder option" where
  "senders_step K U st mediaItem ml elem =
     (if truthy (findLine U mediaItem (''a='' @ SENDRECV K) None)
      then elem_attrs [(''senders'', ''both'')] elem
      else if truthy (findLine U mediaItem (''a='' @ SENDONLY K) None)
      then elem_attrs [(''senders'', ''initiator'')] elem
      else if truthy (findLine U mediaItem (''a='' @ RECVONLY K) None)
      then elem_attrs [(''senders'', ''responder'')] elem
      else if truthy (findLine U mediaItem (''a='' @ INACTIVE K) None)
      then elem_attrs [(''senders'', ''none'')] elem
      else Some elem)
     \<bind> (\<lambda>e. if m_port ml = Some ''0''
                  \<and> \<not> truthy (findLine U mediaItem ''a=bundle-only'' (Some (session st)))
               then elem_attrs [(''senders'', ''rejected'')] e
               else Some e)"

definition new_content ::
  "env \<Rightarrow> sdputil \<Rightarrow> SDP \<Rightarrow> string \<Rightarrow> nat \<Rightarrow> string \<Rightarrow> mline \<Rightarrow> string \<Rightarrow> string option \<Rightarrow>
   builder \<Rightarrow> builder option" where
  "new_content K U st thecreator i mediaItem ml mediaType ssrc elem =
     (let mid = parseMID U (findLine U mediaItem ''a=mid:'' None)
      in elem_c ''content''
           [(''creator'', Some thecreator),
            (''name'', Some (if isP2P st then mid else mediaType))] elem
         \<bind> (\<lambda>e. case initialLastN st of
                     Some n \<Rightarrow>
                       if mediaType = VIDEO K
                       then elem_c ''initial-last-n''
                              [(''xmlns'', Some ''jitsi:colibri2''), (''value'', Some n)] e
                            \<bind> elem_up
                       else Some e
                   | None \<Rightarrow> Some e)
         \<bind> (\<lambda>e. if mediaType = AUDIO K \<or> mediaType = VIDEO K
                   then description_step K U st i mediaItem ml mediaType ssrc e
                   else Some e)
         \<bind> transportToJingle K U st i
         \<bind> senders_step K U st mediaItem ml
         \<bind> elem_up)"

text \<open>One media section. The first content in the tree that has the section's media type as
  its name and a \<^verbatim>\<open>creator\<close> attribute takes the sources and source groups of the section,
  and the section is done; contents without the attribute are passed over. Without such a
  content a new one is created.\<close>

definition section_step ::
  "env \<Rightarrow> sdputil \<Rightarrow> SDP \<Rightarrow> string \<Rightarrow> nat \<times> string \<Rightarrow> builder \<Rightarrow> builder option" where
  "section_step K U st thecreator im elem =
     (case im of (i, mediaItem) \<Rightarrow>
        let ml = parseMLine U (case split CRLF mediaItem of [] \<Rightarrow> [] | l # _ \<Rightarrow> l);
            mediaType = (if m_media ml = APPLICATION K then ''data'' else m_media ml);
            assrcline = findLine U mediaItem ''a=ssrc:'' None;
            ssrc = (if truthy assrcline
                    then (case split '' '' (drop 7 (str_undef assrcline)) of
                            [] \<Rightarrow> None | x # _ \<Rightarrow> Some x)
                    else None)
        in case upd_first (is_created_content mediaType)
                  (\<lambda>content.
                     if truthy ssrc
                     then append_to_descriptions
                            (map (source_element K U) (parseSSRC U mediaItem)
                             @ ssrc_group_elements K U mediaItem) content
                     else content)
                  (childNodes (nodeTree elem)) of
             Some ks \<Rightarrow> Some (elem \<lparr> nodeTree := set_children ks (nodeTree elem) \<rparr>)
           | None \<Rightarrow> new_content K U st thecreator i mediaItem ml mediaType ssrc elem)"

definition toJingle :: "env \<Rightarrow> sdputil \<Rightarrow> SDP \<Rightarrow> builder \<Rightarrow> string \<Rightarrow> builder option" where
  "toJingle K U st elem thecreator =
     forEach (group_step K U st) (findLines U (session st) ''a=group:'' None) elem
     \<bind> forEach (section_step K U st thecreator) (enumerate 0 (media st))
     \<bind> elem_up"

section \<open>The SSRC map\<close>

text \<open>\<^verbatim>\<open>media.ssrcs\<close> is a plain object used as a dictionary. Reading a key gives the entry
  stored under it, or else what every object inherits under that name: \<^verbatim>\<open>{}['toString']\<close>
  is a function. \<open>own\<close> holds the entries stored; the inherited names are those of
  \<^verbatim>\<open>Object.prototype\<close>.\<close>

record ssrc_entry =
  s_ssrc :: string
  s_lines :: "string list"

record media_info =
  i_mediaindex :: nat
  i_mediaType :: string
  i_mid :: string
  i_ssrcs :: "string \<Rightarrow> ssrc_entry option"
  i_ssrcGroups :: "(string \<times> string list) list"

definition Object_prototype :: "string list" where
  "Object_prototype =
     [''constructor'', ''__defineGetter__'', ''__defineSetter__'', ''hasOwnProperty'',
      ''__lookupGetter__'', ''__lookupSetter__'', ''isPrototypeOf'', ''propertyIsEnumerable'',
      ''toString'', ''valueOf'', ''__proto__'', ''toLocaleString'']"

datatype 'a property = Own 'a | Inherited | Undefined

definition get_property :: "(string \<Rightarrow> 'a option) \<Rightarrow> string \<Rightarrow> 'a property" where
  "get_property own k =
     (case own k of
        Some v \<Rightarrow> Own v
      | None \<Rightarrow> if k \<in> set Object_prototype then Inherited else Undefined)"

text \<open>One \<^verbatim>\<open>a=ssrc:\<close> line. An inherited value is truthy, so no entry is allocated for it, and
  it has no \<^verbatim>\<open>lines\<close> array to push to: a \<^verbatim>\<open>TypeError\<close>.\<close>

definition ssrc_line_step ::
  "string \<Rightarrow> (string \<Rightarrow> ssrc_entry option) \<Rightarrow> (string \<Rightarrow> ssrc_entry option) option" where
  "ssrc_line_step line own =
     (let linessrc = (case split '' '' (drop 7 line) of [] \<Rightarrow> [] | x # _ \<Rightarrow> x)
      in case get_property own linessrc of
           Undefined \<Rightarrow> Some (own(linessrc \<mapsto> \<lparr> s_ssrc = linessrc, s_lines = [line] \<rparr>))
         | Own entry \<Rightarrow> Some (own(linessrc \<mapsto> entry \<lparr> s_lines := s_lines entry @ [line] \<rparr>))
         | Inherited \<Rightarrow> None)"

text \<open>One \<^verbatim>\<open>a=ssrc-group:\<close> line. \<^verbatim>\<open>substr(0, idx)\<close> is empty when the line has no space
  (\<^verbatim>\<open>idx\<close> is then -1).\<close>

definition ssrc_group_of :: "string \<Rightarrow> string \<times> string list" where
  "ssrc_group_of line =
     (let semantics = drop 13 (if CHR '' '' \<in> set line then takeWhile (\<lambda>ch. ch \<noteq> CHR '' '') line
                               else [])
      in (semantics, split '' '' (drop (14 + length semantics) line)))"

definition media_info_of :: "sdputil \<Rightarrow> nat \<times> string \<Rightarrow> media_info option" where
  "media_info_of U im =
     (case im of (mediaindex, mediaItem) \<Rightarrow>
        case forEach ssrc_line_step (findLines U mediaItem ''a=ssrc:'' None) Map.empty of
          None \<Rightarrow> None
        | Some own \<Rightarrow>
            Some \<lparr> i_mediaindex = mediaindex,
                   i_mediaType = m_media (parseMLine U
                                 (case split CRLF mediaItem of [] \<Rightarrow> [] | l # _ \<Rightarrow> l)),
                   i_mid = parseMID U (findLine U mediaItem ''a=mid:'' None),
                   i_ssrcs = own,
                   i_ssrcGroups = filter (\<lambda>g. snd g \<noteq> [])
                                  (map ssrc_group_of (findLines U mediaItem ''a=ssrc-group:'' None)) \<rparr>)"

text \<open>\<^verbatim>\<open>getMediaSsrcMap()\<close>: the map from the index of a section to its record, here the list
  of the records in the order of their indices.\<close>

definition getMediaSsrcMap :: "sdputil \<Rightarrow> SDP \<Rightarrow> media_info list option" where
  "getMediaSsrcMap U st = those (map (media_info_of U) (enumerate 0 (media st)))"

text \<open>\<^verbatim>\<open>containsSSRC(ssrc)\<close>: some section's \<^verbatim>\<open>ssrcs[ssrc]\<close> is truthy.\<close>

definition containsSSRC :: "sdputil \<Rightarrow> SDP \<Rightarrow> string \<Rightarrow> bool option" where
  "containsSSRC U st s =
     (case getMediaSsrcMap U st of
        None \<Rightarrow> None
      | Some sourceMap \<Rightarrow>
          Some (list_ex (\<lambda>m. get_property (i_ssrcs m) s \<noteq> Undefined) sourceMap))"

section \<open>Adding a media section\<close>

text \<open>\<^verbatim>\<open>addMlineForNewLocalSource\<close> edits the object that \<^verbatim>\<open>transform.parse\<close> (the
  \<^verbatim>\<open>sdp-transform\<close> package) makes of the text and writes it back with \<^verbatim>\<open>transform.write\<close>;
  both are parameters. Of the object, the properties the method reads or writes are fields;
  the others are carried along. A property holds a string or a number (the parser turns a
  value that is the decimal form of a number into that number).\<close>

datatype jsval = Num nat | Str string

record tmedia =
  t_type :: string
  t_mid :: "jsval option"
  t_direction :: "string option"
  t_msid :: "string option"
  t_ssrcs :: "string list option"
  t_ssrcGroups :: "string list option"
  t_other :: "string list"

record tgroup =
  g_type :: string
  g_mids :: jsval

record tdesc =
  sdp_session :: "string list"
  sdp_media :: "tmedia list"
  sdp_groups :: "tgroup list option"

text \<open>The loop over the groups: \<^verbatim>\<open>group.mids.split(' ')\<close> throws for a number.\<close>

definition regroup :: "nat \<Rightarrow> tgroup \<Rightarrow> tgroup option" where
  "regroup new_mid grp =
     (if g_type grp = ''BUNDLE''
      then (case g_mids grp of
              Num n \<Rightarrow> None
            | Str mids \<Rightarrow> Some (grp \<lparr> g_mids := Str (join '' '' (split '' '' mids @ [show_nat new_mid])) \<rparr>))
      else Some grp)"

text \<open>The method changes the model only by its last statement, the assignment to
  \<^verbatim>\<open>this.raw\<close>. The result is the model after the call, and whether the call returned or
  threw a \<^verbatim>\<open>TypeError\<close> on the way.\<close>

datatype 'a completion = Returns 'a | Throws 'a

definition addMlineForNewLocalSource ::
  "env \<Rightarrow> (string \<Rightarrow> tdesc) \<Rightarrow> (tdesc \<Rightarrow> string) \<Rightarrow> string \<Rightarrow> SDP \<Rightarrow> SDP completion" where
  "addMlineForNewLocalSource K parse write mediaType' st =
     (let new_mid = length (media st);
          sdp = parse (raw st)
      in case find (\<lambda>m. t_type m = mediaType') (sdp_media sdp) of
           None \<Rightarrow> Throws st
         | Some found \<Rightarrow>
             (let ml = found \<lparr> t_mid := Some (Num new_mid), t_direction := Some (RECVONLY K),
                              t_msid := None, t_ssrcs := None, t_ssrcGroups := None \<rparr>
              in case sdp_groups sdp of
                   None \<Rightarrow> Throws st
                 | Some groups \<Rightarrow>
                     (case those (map (regroup new_mid) groups) of
                        None \<Rightarrow> Throws st
                      | Some groups' \<Rightarrow>
                          Returns (st \<lparr> raw := write (sdp \<lparr> sdp_media := sdp_media sdp @ [ml],
                                                          sdp_groups := Some groups' \<rparr>) \<rparr>))))"

section \<open>A line codec and constants to run the translator\<close>

text \<open>The theorems below hold for every line codec and every choice of the constants. To run
  the translator on a concrete text, a codec and the constants are needed; the following ones
  are used for that.

  Modelled from the spec: the module \<^verbatim>\<open>SDPUtil\<close> is not part of the sources. The spec treats
  it as a library of pure functions, one pair of parse and build functions per attribute
  kind, and gives the line-prefix lookup within a section and across the document (here the
  section first, then the session part), the media line \<^verbatim>\<open>m=type port proto formats\<close>, the
  feedback line \<^verbatim>\<open>a=rtcp-fb:id type subtype\<close>, and the treatment of a missing optional line as
  absent. The modules of \<^verbatim>\<open>XEP\<close>, \<^verbatim>\<open>MediaDirection\<close> and \<^verbatim>\<open>MediaType\<close> are not part of the
  sources; the spec names four direction tokens and the media types audio, video and
  application.\<close>

definition has_prefix :: "string \<Rightarrow> string \<Rightarrow> bool" where
  "has_prefix needle l = (take (length needle) l = needle)"

definition SDPUtil_findLine :: "string \<Rightarrow> string \<Rightarrow> string option \<Rightarrow> string option" where
  "SDPUtil_findLine haystack needle sessionpart =
     (case find (has_prefix needle) (split CRLF haystack) of
        Some l \<Rightarrow> Some l
      | None \<Rightarrow> if truthy sessionpart
                then find (has_prefix needle) (split CRLF (str_undef sessionpart))
                else None)"

definition SDPUtil_findLines :: "string \<Rightarrow> string \<Rightarrow> string option \<Rightarrow> string list" where
  "SDPUtil_findLines haystack needle sessionpart =
     (let needles = filter (has_prefix needle) (split CRLF haystack)
      in if needles \<noteq> [] \<or> \<not> truthy sessionpart then needles
         else filter (has_prefix needle) (split CRLF (str_undef sessionpart)))"

definition nth_opt :: "'a list \<Rightarrow> nat \<Rightarrow> 'a option" where
  "nth_opt xs i = (if i < length xs then Some (xs ! i) else None)"

definition SDPUtil_parseMID :: "string option \<Rightarrow> string" where
  "SDPUtil_parseMID line = (case line of None \<Rightarrow> [] | Some l \<Rightarrow> drop 6 l)"

definition SDPUtil_parseMLine :: "string \<Rightarrow> mline" where
  "SDPUtil_parseMLine line =
     (let parts = split '' '' (drop 2 line);
          fmt = drop 3 parts
      in \<lparr> m_media = str_undef (nth_opt parts 0), m_port = nth_opt parts 1,
           m_proto = nth_opt parts 2,
           m_fmt = (if fmt \<noteq> [] \<and> last fmt = [] then butlast fmt else fmt) \<rparr>)"

definition SDPUtil_buildMLine :: "mdesc \<Rightarrow> string" where
  "SDPUtil_buildMLine m =
     ''m='' @ str_undef (d_media m) @ '' '' @ d_port m @ '' '' @ d_proto m @ '' ''
     @ join '' '' (d_fmt m)"

definition SDPUtil_candidateFromJingle :: "xml \<Rightarrow> string" where
  "SDPUtil_candidateFromJingle cand =
     (let g = (\<lambda>k. str_null (getAttribute cand k));
          type = g ''type''
      in ''a=candidate:'' @ g ''foundation'' @ '' '' @ g ''component'' @ '' '' @ g ''protocol''
         @ '' '' @ g ''priority'' @ '' '' @ g ''ip'' @ '' '' @ g ''port'' @ '' typ '' @ type @ '' ''
         @ (if (type = ''srflx'' \<or> type = ''prflx'' \<or> type = ''relay'')
               \<and> hasAttribute cand ''rel-addr'' \<and> hasAttribute cand ''rel-port''
            then ''raddr '' @ g ''rel-addr'' @ '' rport '' @ g ''rel-port'' @ '' '' else [])
         @ (if toLowerCase (g ''protocol'') = ''tcp'' then ''tcptype '' @ g ''tcptype'' @ '' '' else [])
         @ ''generation ''
         @ (if truthy (getAttribute cand ''generation'') then g ''generation'' else ''0'')
         @ CRLF)"

definition candidate_extension ::
  "string \<Rightarrow> string \<Rightarrow> (string \<times> string) list \<Rightarrow> (string \<times> string) list" where
  "candidate_extension k v cand =
     (if k = ''raddr'' then AList.update ''rel-addr'' v cand
      else if k = ''rport'' then AList.update ''rel-port'' v cand
      else if k = ''generation'' then AList.update ''generation'' v cand
      else if k = ''tcptype'' then AList.update ''tcptype'' v cand
      else cand)"

fun candidate_extensions :: "string list \<Rightarrow> (string \<times> string) list \<Rightarrow> (string \<times> string) list" where
  "candidate_extensions [] cand = cand"
| "candidate_extensions [k] cand = cand"
| "candidate_extensions (k # v # rest) cand =
     candidate_extensions rest (candidate_extension k v cand)"

definition SDPUtil_candidateToJingle :: "string \<Rightarrow> (string \<times> string) list option" where
  "SDPUtil_candidateToJingle line0 =
     (let line = (if has_prefix ''candidate:'' line0 then ''a='' @ line0 else line0);
          elems = split '' '' line
      in if \<not> has_prefix ''a=candidate:'' line \<or> nth_opt elems 6 \<noteq> Some ''typ'' then None
         else Some (AList.update ''network'' ''1''
                (candidate_extensions (drop 8 elems)
                   [(''foundation'', drop 12 (str_undef (nth_opt elems 0))),
                    (''component'', str_undef (nth_opt elems 1)),
                    (''protocol'', toLowerCase (str_undef (nth_opt elems 2))),
                    (''priority'', str_undef (nth_opt elems 3)),
                    (''ip'', str_undef (nth_opt elems 4)),
                    (''port'', str_undef (nth_opt elems 5)),
                    (''type'', str_undef (nth_opt elems 7)),
                    (''generation'', ''0'')])))"

definition SDPUtil_buildRTPMap :: "xml \<Rightarrow> string" where
  "SDPUtil_buildRTPMap el =
     ''a=rtpmap:'' @ str_null (getAttribute el ''id'') @ '' '' @ str_null (getAttribute el ''name'')
     @ ''/'' @ str_null (getAttribute el ''clockrate'')
     @ (if truthy (getAttribute el ''channels'') \<and> getAttribute el ''channels'' \<noteq> Some ''1''
        then ''/'' @ str_null (getAttribute el ''channels'') else [])"

definition SDPUtil_parseRTPMap :: "string option \<Rightarrow> (string \<times> string) list" where
  "SDPUtil_parseRTPMap line =
     (case line of
        None \<Rightarrow> []
      | Some l \<Rightarrow>
          (let parts = split '' '' (drop 9 l);
               codec = split ''/'' (str_undef (nth_opt parts 1))
           in [(''id'', str_undef (nth_opt parts 0)), (''name'', str_undef (nth_opt codec 0)),
               (''clockrate'', str_undef (nth_opt codec 1)),
               (''channels'', case nth_opt codec 2 of None \<Rightarrow> ''1'' | Some ch \<Rightarrow> ch)]))"

definition SDPUtil_parseFmtp :: "string \<Rightarrow> (string \<times> string) list list" where
  "SDPUtil_parseFmtp line =
     concat (map (\<lambda>part.
        let kv = split ''='' part;
            key = dropWhile (\<lambda>ch. ch = CHR '' '') (str_undef (nth_opt kv 0))
        in if key \<noteq> [] \<and> truthy (nth_opt kv 1)
           then [[(''name'', key), (''value'', str_undef (nth_opt kv 1))]]
           else if key \<noteq> [] then [[(''name'', []), (''value'', key)]]
           else [])
       (split '';'' (join '' '' (tl (split '' '' line)))))"

definition SDPUtil_filterSpecialChars :: "string option \<Rightarrow> string option" where
  "SDPUtil_filterSpecialChars v =
     map_option (filter (\<lambda>ch. ch \<notin> set (CHR 0x5C # ''/{,}+''))) v"

definition SDPUtil_parseRTCPFB :: "string \<Rightarrow> rtcpfb" where
  "SDPUtil_parseRTCPFB line =
     (let parts = split '' '' (drop 10 line)
      in \<lparr> fb_pt = nth_opt parts 0, fb_type = nth_opt parts 1, fb_params = drop 2 parts \<rparr>)"

fun group_by_ssrc :: "string list \<Rightarrow> (string \<times> string list) list \<Rightarrow> (string \<times> string list) list" where
  "group_by_ssrc [] acc = acc"
| "group_by_ssrc (l # ls) acc =
     (let s = str_undef (nth_opt (split '' '' (drop 7 l)) 0)
      in group_by_ssrc ls
           (AList.update s ((case map_of acc s of None \<Rightarrow> [] | Some old \<Rightarrow> old) @ [l]) acc))"

definition SDPUtil_parseSSRC :: "string \<Rightarrow> (string \<times> string list) list" where
  "SDPUtil_parseSSRC desc = group_by_ssrc (filter (has_prefix ''a=ssrc:'') (split CRLF desc)) []"

text \<open>The part of the first line that follows a marker found past the start of the line.\<close>

fun after_marker :: "string \<Rightarrow> string \<Rightarrow> string option" where
  "after_marker marker [] = None"
| "after_marker marker (ch # l) =
     (if has_prefix marker l then Some (drop (length marker) l) else after_marker marker l)"

definition SDPUtil_parseAttribute :: "string \<Rightarrow> string list \<Rightarrow> string option" where
  "SDPUtil_parseAttribute marker ssrcLines =
     (case find (\<lambda>l. after_marker marker l \<noteq> None) ssrcLines of
        None \<Rightarrow> None
      | Some l \<Rightarrow> after_marker marker l)"

definition SDPUtil_parseSSRCGroupLine :: "string \<Rightarrow> string option \<times> string list" where
  "SDPUtil_parseSSRCGroupLine line =
     (let parts = split '' '' (drop 13 line) in (nth_opt parts 0, tl parts))"

definition SDPUtil_parseExtmap :: "string \<Rightarrow> extmap" where
  "SDPUtil_parseExtmap line =
     (let parts = split '' '' (drop 9 line);
          v = str_undef (nth_opt parts 0)
      in \<lparr> e_value = Some (takeWhile (\<lambda>ch. ch \<noteq> CHR ''/'') v),
           e_uri = nth_opt parts 1,
           e_direction = Some (if CHR ''/'' \<in> set v
                               then tl (dropWhile (\<lambda>ch. ch \<noteq> CHR ''/'') v) else ''both'') \<rparr>)"

definition SDPUtil_parseSCTPMap :: "string \<Rightarrow> string option list" where
  "SDPUtil_parseSCTPMap line =
     (let parts = split '' '' (drop 10 line)
      in [nth_opt parts 0, nth_opt parts 1, nth_opt parts 2])"

definition SDPUtil_parseFingerprint :: "string \<Rightarrow> (string \<times> string) list" where
  "SDPUtil_parseFingerprint line =
     (let parts = split '' '' (drop 14 line)
      in [(''hash'', str_undef (nth_opt parts 0)), (''fingerprint'', str_undef (nth_opt parts 1))])"

definition SDPUtil_iceparams :: "string \<Rightarrow> string option \<Rightarrow> (string \<times> string) list option" where
  "SDPUtil_iceparams mediadesc sessiondesc =
     (case (SDPUtil_findLine mediadesc ''a=ice-ufrag:'' sessiondesc,
            SDPUtil_findLine mediadesc ''a=ice-pwd:'' sessiondesc) of
        (Some ufrag, Some pwd) \<Rightarrow> Some [(''ufrag'', drop 12 ufrag), (''pwd'', drop 10 pwd)]
      | _ \<Rightarrow> None)"

definition SDPUtil :: sdputil where
  "SDPUtil =
     \<lparr> findLine = SDPUtil_findLine, findLines = SDPUtil_findLines, parseMID = SDPUtil_parseMID,
       parseMLine = SDPUtil_parseMLine, buildMLine = SDPUtil_buildMLine,
       buildICEUfrag = (\<lambda>frag. ''a=ice-ufrag:'' @ frag),
       buildICEPwd = (\<lambda>pwd. ''a=ice-pwd:'' @ pwd),
       candidateFromJingle = SDPUtil_candidateFromJingle,
       candidateToJingle = SDPUtil_candidateToJingle,
       buildRTPMap = SDPUtil_buildRTPMap, parseRTPMap = SDPUtil_parseRTPMap,
       parseFmtp = SDPUtil_parseFmtp, filterSpecialChars = SDPUtil_filterSpecialChars,
       parseRTCPFB = SDPUtil_parseRTCPFB, parseSSRC = SDPUtil_parseSSRC,
       parseSourceNameLine = SDPUtil_parseAttribute '' name:'',
       parseVideoTypeLine = SDPUtil_parseAttribute '' videoType:'',
       parseMSIDAttribute = (\<lambda>ls. SDPUtil_filterSpecialChars (SDPUtil_parseAttribute '' msid:'' ls)),
       parseSSRCGroupLine = SDPUtil_parseSSRCGroupLine, parseExtmap = SDPUtil_parseExtmap,
       parseSCTPPort = drop 12, parseSCTPMap = SDPUtil_parseSCTPMap,
       parseFingerprint = SDPUtil_parseFingerprint, iceparams = SDPUtil_iceparams \<rparr>"

definition constants :: env where
  "constants =
     \<lparr> BUNDLE_MEDIA = ''urn:xmpp:jingle:apps:grouping:0'',
       ICE_UDP_TRANSPORT = ''urn:xmpp:jingle:transports:ice-udp:1'',
       SCTP_DATA_CHANNEL = ''urn:xmpp:jingle:transports:dtls-sctp:1'',
       DTLS_SRTP = ''urn:xmpp:jingle:apps:dtls:0'',
       RTP_FEEDBACK = ''urn:xmpp:jingle:apps:rtp:rtcp-fb:0'',
       RTP_HEADER_EXTENSIONS = ''urn:xmpp:jingle:apps:rtp:rtp-hdrext:0'',
       SOURCE_ATTRIBUTES = ''urn:xmpp:jingle:apps:rtp:ssma:0'',
       RTP_MEDIA = ''urn:xmpp:jingle:apps:rtp:1'',
       INACTIVE = ''inactive'', RECVONLY = ''recvonly'', SENDONLY = ''sendonly'',
       SENDRECV = ''sendrecv'',
       AUDIO = ''audio'', VIDEO = ''video'', APPLICATION = ''application'',
       usesRidsForSimulcast = False \<rparr>"


section \<open>Notions used to state the properties\<close>


text \<open>What a piece of builder code does to the tree: started with the pointer at an element
  \<open>n\<close>, it returns, leaves the pointer where it was and has replaced \<open>n\<close> by \<open>F n\<close>.\<close>

definition is_elem :: "xml \<Rightarrow> bool" where
  "is_elem x = (tagName x \<noteq> None)"

definition builds :: "(builder \<Rightarrow> builder option) \<Rightarrow> (xml \<Rightarrow> xml) \<Rightarrow> bool" where
  "builds B F =
     (\<forall>b p n. node b = Some p \<and> sub_at p (nodeTree b) = Some n \<and> is_elem n \<longrightarrow>
        B b = Some (b \<lparr> nodeTree := upd_at p F (nodeTree b) \<rparr>) \<and> is_elem (F n))"

fun add_children :: "xml list \<Rightarrow> xml \<Rightarrow> xml" where
  "add_children new (Elem t a ks) = Elem t a (ks @ new)"
| "add_children new (Text s) = Text s"

definition set_attrs :: "(string \<times> string) list \<Rightarrow> xml \<Rightarrow> xml" where
  "set_attrs kvs = fold (\<lambda>kv. setAttribute (fst kv) (snd kv)) kvs"

definition appends :: "(builder \<Rightarrow> builder option) \<Rightarrow> bool" where
  "appends B = (\<exists>ks. builds B (add_children ks))"

definition fb_element :: "env \<Rightarrow> sdputil \<Rightarrow> string \<Rightarrow> xml" where
  "fb_element K U line =
     (let feedback = parseRTCPFB U line
      in if fb_type feedback = Some ''trr-int''
         then xmlElement ''rtcp-fb-trr-int''
                [(''xmlns'', Some (RTP_FEEDBACK K)),
                 (''value'', case fb_params feedback of [] \<Rightarrow> None | v # _ \<Rightarrow> Some v)]
         else (case fb_params feedback of
                 [] \<Rightarrow> (\<lambda>x. x)
               | v # _ \<Rightarrow> setAttribute ''subtype'' v)
                (xmlElement ''rtcp-fb''
                   [(''xmlns'', Some (RTP_FEEDBACK K)), (''type'', fb_type feedback)]))"

text \<open>The elements that the transport conversion builds, written as values.\<close>

definition sctp_elements :: "env \<Rightarrow> sdputil \<Rightarrow> SDP \<Rightarrow> string \<Rightarrow> xml list" where
  "sctp_elements K U st mediaItem =
     (let sctpport = findLine U mediaItem ''a=sctp-port:'' (Some (session st));
          sctpmap = findLine U mediaItem ''a=sctpmap:'' (Some (session st))
      in if truthy sctpport
         then [set_attrs [(''streams'', ''0'')]
                 (xmlElement ''sctpmap''
                    [(''xmlns'', Some (SCTP_DATA_CHANNEL K)),
                     (''number'', Some (parseSCTPPort U (str_undef sctpport))),
                     (''protocol'', Some ''webrtc-datachannel'')])]
         else if truthy sctpmap
         then (let sctpAttrs = parseSCTPMap U (str_undef sctpmap)
               in [set_attrs [(''streams'',
                                if 2 < length sctpAttrs then str_null (sctpAttrs ! 2) else ''0'')]
                     (xmlElement ''sctpmap''
                        [(''xmlns'', Some (SCTP_DATA_CHANNEL K)),
                         (''number'', if 0 < length sctpAttrs then sctpAttrs ! 0 else None),
                         (''protocol'', if 1 < length sctpAttrs then sctpAttrs ! 1 else None)])])
         else [])"

definition fingerprint_element :: "env \<Rightarrow> sdputil \<Rightarrow> SDP \<Rightarrow> string \<Rightarrow> string \<Rightarrow> xml" where
  "fingerprint_element K U st mediaItem line =
     (let fingerprint = AList.update ''xmlns'' (DTLS_SRTP K) (parseFingerprint U line);
          setupLine = findLine U mediaItem ''a=setup:'' (Some (session st));
          fingerprint' = AList.delete ''fingerprint'' fingerprint
      in set_attrs (if truthy setupLine
                    then AList.update ''setup'' (drop 8 (str_undef setupLine)) fingerprint'
                    else fingerprint')
           (appendChild (Text (str_undef (map_of fingerprint ''fingerprint'')))
              (xmlElement ''fingerprint'' [])))"

definition emitted_candidate :: "sdputil \<Rightarrow> SDP \<Rightarrow> string \<Rightarrow> xml list" where
  "emitted_candidate U st line =
     (let candidate = (if failICE st
                       then map_option (AList.update ''ip'' ''1.1.1.1'') (candidateToJingle U line)
                       else candidateToJingle U line);
          protocol = (case candidate of
                        None \<Rightarrow> []
                      | Some cand \<Rightarrow> (case map_of cand ''protocol'' of
                                        None \<Rightarrow> [] | Some p \<Rightarrow> toLowerCase p))
      in if candidate_dropped st protocol then []
         else [xmlElement ''candidate'' (case candidate of None \<Rightarrow> [] | Some cand \<Rightarrow> defined cand)])"

definition transport_element :: "env \<Rightarrow> sdputil \<Rightarrow> SDP \<Rightarrow> string \<Rightarrow> xml" where
  "transport_element K U st mediaItem =
     (let base = add_children
                   (sctp_elements K U st mediaItem
                    @ map (fingerprint_element K U st mediaItem)
                        (findLines U mediaItem ''a=fingerprint:'' (Some (session st))))
                   (xmlElement ''transport'' [])
      in case iceparams U mediaItem (Some (session st)) of
           None \<Rightarrow> base
         | Some iceParameters \<Rightarrow>
             add_children
               (concat (map (emitted_candidate U st)
                  (findLines U mediaItem ''a=candidate:'' (Some (session st)))))
               (set_attrs (AList.update ''xmlns'' (ICE_UDP_TRANSPORT K) iceParameters) base))"

text \<open>The conditions under which the conversion of a section does not throw, and the value
  of the \<^verbatim>\<open>senders\<close> attribute it computes.\<close>

definition rids_ok :: "env \<Rightarrow> sdputil \<Rightarrow> string \<Rightarrow> bool" where
  "rids_ok K U mediaItem =
     (usesRidsForSimulcast K \<longrightarrow>
        (\<forall>l \<in> set (findLines U mediaItem ''a=rid:'' None). rid_of l \<noteq> None))"

definition candidates_ok :: "sdputil \<Rightarrow> SDP \<Rightarrow> string \<Rightarrow> bool" where
  "candidates_ok U st mediaItem =
     (failICE st \<longrightarrow>
        (\<forall>line \<in> set (findLines U mediaItem ''a=candidate:'' (Some (session st))).
           candidateToJingle U line \<noteq> None))"

definition direction_senders :: "env \<Rightarrow> sdputil \<Rightarrow> string \<Rightarrow> (string \<times> string) list" where
  "direction_senders K U mediaItem =
     (if truthy (findLine U mediaItem (''a='' @ SENDRECV K) None) then [(''senders'', ''both'')]
      else if truthy (findLine U mediaItem (''a='' @ SENDONLY K) None) then [(''senders'', ''initiator'')]
      else if truthy (findLine U mediaItem (''a='' @ RECVONLY K) None) then [(''senders'', ''responder'')]
      else if truthy (findLine U mediaItem (''a='' @ INACTIVE K) None) then [(''senders'', ''none'')]
      else [])"

definition is_rejected :: "sdputil \<Rightarrow> SDP \<Rightarrow> string \<Rightarrow> mline \<Rightarrow> bool" where
  "is_rejected U st mediaItem ml =
     (m_port ml = Some ''0''
      \<and> \<not> truthy (findLine U mediaItem ''a=bundle-only'' (Some (session st))))"


text \<open>The feedback element of the stanza for a type and a subtype.\<close>

definition feedback_element :: "env \<Rightarrow> string \<Rightarrow> string \<Rightarrow> xml" where
  "feedback_element K ty sb =
     Elem ''rtcp-fb'' [(''xmlns'', RTP_FEEDBACK K), (''type'', ty), (''subtype'', sb)] []"




text \<open>Notions about the tree of the stanza: a node of a subtree that satisfies a test, a
  content of a given name that carries the \<^verbatim>\<open>creator\<close> attribute somewhere below the root,
  and the number of elements with a given tag.\<close>

fun has_node :: "(xml \<Rightarrow> bool) \<Rightarrow> xml \<Rightarrow> bool" where
  "has_node P (Text s) = P (Text s)"
| "has_node P (Elem t a ks) = (P (Elem t a ks) \<or> (\<exists>k \<in> set ks. has_node P k))"

definition has_created :: "string \<Rightarrow> xml \<Rightarrow> bool" where
  "has_created T tree = (\<exists>k \<in> set (childNodes tree). has_node (is_created_content T) k)"


text \<open>The media type of a section as \<^verbatim>\<open>toJingle\<close> resolves it, the value of its variable
  \<^verbatim>\<open>ssrc\<close>, and the elements a section contributes to a content that exists already.\<close>

definition resolved_type :: "env \<Rightarrow> sdputil \<Rightarrow> string \<Rightarrow> string" where
  "resolved_type K U mediaItem =
     (let ml = parseMLine U (case split CRLF mediaItem of [] \<Rightarrow> [] | l # _ \<Rightarrow> l)
      in if m_media ml = APPLICATION K then ''data'' else m_media ml)"

definition first_ssrc :: "sdputil \<Rightarrow> string \<Rightarrow> string option" where
  "first_ssrc U mediaItem =
     (let assrcline = findLine U mediaItem ''a=ssrc:'' None
      in if truthy assrcline
         then (case split '' '' (drop 7 (str_undef assrcline)) of [] \<Rightarrow> None | x # _ \<Rightarrow> Some x)
         else None)"

definition merged_sources :: "env \<Rightarrow> sdputil \<Rightarrow> string \<Rightarrow> xml list" where
  "merged_sources K U mediaItem =
     map (source_element K U) (parseSSRC U mediaItem) @ ssrc_group_elements K U mediaItem"

definition merge_section :: "env \<Rightarrow> sdputil \<Rightarrow> string \<Rightarrow> xml \<Rightarrow> xml" where
  "merge_section K U mediaItem content =
     (if truthy (first_ssrc U mediaItem)
      then append_to_descriptions (merged_sources K U mediaItem) content
      else content)"

definition section_ok :: "env \<Rightarrow> sdputil \<Rightarrow> SDP \<Rightarrow> string \<Rightarrow> bool" where
  "section_ok K U st mediaItem = (rids_ok K U mediaItem \<and> candidates_ok U st mediaItem)"

text \<open>A path that leads to an element.\<close>

definition valid :: "nat list \<Rightarrow> xml \<Rightarrow> bool" where
  "valid p t = (\<exists>n. sub_at p t = Some n \<and> is_elem n)"


text \<open>The media line of a section, as \<^verbatim>\<open>toJingle\<close> parses it.\<close>

definition mline_of :: "sdputil \<Rightarrow> string \<Rightarrow> mline" where
  "mline_of U mediaItem = parseMLine U (case split CRLF mediaItem of [] \<Rightarrow> [] | l # _ \<Rightarrow> l)"


section \<open>Sample inputs\<close>

text \<open>A line of a description text, with its line end.\<close>

definition ln :: "string \<Rightarrow> string" where
  "ln s = s @ CRLF"

text \<open>A content with two sources, a user's declared before the mixer's.\<close>

definition two_sources :: xml where
  "two_sources =
     Elem ''content'' [(''name'', ''audio''), (''senders'', ''initiator'')]
       [Elem ''description'' [(''media'', ''audio'')]
          [Elem ''source'' [(''ssrc'', ''1''), (''xmlns'', ''urn:xmpp:jingle:apps:rtp:ssma:0'')]
             [Elem ''parameter'' [(''name'', ''msid''), (''value'', ''u1 t1'')] []],
           Elem ''source'' [(''ssrc'', ''2''), (''xmlns'', ''urn:xmpp:jingle:apps:rtp:ssma:0'')]
             [Elem ''parameter''
                [(''name'', ''msid''), (''value'', ''mixedmslabel mixedlabelaudio0'')] []]]]"

definition jingle_one :: xml where
  "jingle_one = Elem ''jingle'' [] [two_sources]"

text \<open>A description with one audio section, and the model constructed from it.\<close>

definition text_a :: string where
  "text_a = ln ''v=0'' @ ln ''o=- 1 2 IN IP4 0.0.0.0'' @ ln ''s=-'' @ ln ''t=0 0''
            @ ln ''a=group:BUNDLE 0''
            @ ln ''m=audio 9 UDP/TLS/RTP/SAVPF 111'' @ ln ''a=mid:0'' @ ln ''a=sendrecv''
            @ ln ''a=rtpmap:111 opus/48000/2''"

definition model_a :: SDP where
  "model_a = SDP_new text_a False"

text \<open>A description with an audio and a video section under one BUNDLE group, the same with
  a third and with a fourth section added, and what \<^verbatim>\<open>transform.parse\<close> and
  \<^verbatim>\<open>transform.write\<close> make of these texts and objects: \<open>parse_sample\<close> and
  \<open>write_sample\<close> stand for the two functions on the sample inputs.\<close>

definition text_av :: string where
  "text_av = ln ''v=0'' @ ln ''o=- 1 2 IN IP4 0.0.0.0'' @ ln ''s=-'' @ ln ''t=0 0''
             @ ln ''a=group:BUNDLE 0 1''
             @ ln ''m=audio 9 UDP/TLS/RTP/SAVPF 111'' @ ln ''a=rtpmap:111 opus/48000/2''
             @ ln ''a=mid:0'' @ ln ''a=sendrecv''
             @ ln ''m=video 9 UDP/TLS/RTP/SAVPF 100'' @ ln ''a=rtpmap:100 VP8/90000''
             @ ln ''a=mid:1'' @ ln ''a=msid:s t'' @ ln ''a=sendrecv'' @ ln ''a=ssrc:1234 msid:s t''"

definition text_av3 :: string where
  "text_av3 = ln ''v=0'' @ ln ''o=- 1 2 IN IP4 0.0.0.0'' @ ln ''s=-'' @ ln ''t=0 0''
              @ ln ''a=group:BUNDLE 0 1 2''
              @ ln ''m=audio 9 UDP/TLS/RTP/SAVPF 111'' @ ln ''a=rtpmap:111 opus/48000/2''
              @ ln ''a=mid:0'' @ ln ''a=sendrecv''
              @ ln ''m=video 9 UDP/TLS/RTP/SAVPF 100'' @ ln ''a=rtpmap:100 VP8/90000''
              @ ln ''a=mid:1'' @ ln ''a=msid:s t'' @ ln ''a=sendrecv'' @ ln ''a=ssrc:1234 msid:s t''
              @ ln ''m=video 9 UDP/TLS/RTP/SAVPF 100'' @ ln ''a=rtpmap:100 VP8/90000''
              @ ln ''a=mid:2'' @ ln ''a=recvonly''"

definition text_av4 :: string where
  "text_av4 = ln ''v=0'' @ ln ''o=- 1 2 IN IP4 0.0.0.0'' @ ln ''s=-'' @ ln ''t=0 0''
              @ ln ''a=group:BUNDLE 0 1 2 2''
              @ ln ''m=audio 9 UDP/TLS/RTP/SAVPF 111'' @ ln ''a=rtpmap:111 opus/48000/2''
              @ ln ''a=mid:0'' @ ln ''a=sendrecv''
              @ ln ''m=video 9 UDP/TLS/RTP/SAVPF 100'' @ ln ''a=rtpmap:100 VP8/90000''
              @ ln ''a=mid:1'' @ ln ''a=msid:s t'' @ ln ''a=sendrecv'' @ ln ''a=ssrc:1234 msid:s t''
              @ ln ''m=video 9 UDP/TLS/RTP/SAVPF 100'' @ ln ''a=rtpmap:100 VP8/90000''
              @ ln ''a=mid:2'' @ ln ''a=recvonly''
              @ ln ''m=video 9 UDP/TLS/RTP/SAVPF 100'' @ ln ''a=rtpmap:100 VP8/90000''
              @ ln ''a=mid:2'' @ ln ''a=recvonly''"

definition section_audio :: tmedia where
  "section_audio =
     \<lparr> t_type = ''audio'', t_mid = Some (Num 0), t_direction = Some ''sendrecv'', t_msid = None,
       t_ssrcs = None, t_ssrcGroups = None,
       t_other = [''port 9'', ''protocol UDP/TLS/RTP/SAVPF'', ''payloads 111'',
                  ''rtp 111 opus/48000/2''] \<rparr>"

definition section_video :: tmedia where
  "section_video =
     \<lparr> t_type = ''video'', t_mid = Some (Num 1), t_direction = Some ''sendrecv'',
       t_msid = Some ''s t'', t_ssrcs = Some [''1234 msid s t''], t_ssrcGroups = None,
       t_other = [''port 9'', ''protocol UDP/TLS/RTP/SAVPF'', ''payloads 100'',
                  ''rtp 100 VP8/90000''] \<rparr>"

definition section_added :: tmedia where
  "section_added =
     section_video \<lparr> t_mid := Some (Num 2), t_direction := Some ''recvonly'', t_msid := None,
                     t_ssrcs := None, t_ssrcGroups := None \<rparr>"

definition session_lines :: "string list" where
  "session_lines = [''version 0'', ''origin - 1 2 IN IP4 0.0.0.0'', ''name -'', ''timing 0 0'']"

definition desc_a :: tdesc where
  "desc_a = \<lparr> sdp_session = session_lines, sdp_media = [section_audio],
             sdp_groups = Some [\<lparr> g_type = ''BUNDLE'', g_mids = Num 0 \<rparr>] \<rparr>"

definition desc_av :: tdesc where
  "desc_av = \<lparr> sdp_session = session_lines, sdp_media = [section_audio, section_video],
              sdp_groups = Some [\<lparr> g_type = ''BUNDLE'', g_mids = Str ''0 1'' \<rparr>] \<rparr>"

definition desc_av3 :: tdesc where
  "desc_av3 = \<lparr> sdp_session = session_lines,
               sdp_media = [section_audio, section_video, section_added],
               sdp_groups = Some [\<lparr> g_type = ''BUNDLE'', g_mids = Str ''0 1 2'' \<rparr>] \<rparr>"

definition desc_av4 :: tdesc where
  "desc_av4 = \<lparr> sdp_session = session_lines,
               sdp_media = [section_audio, section_video, section_added, section_added],
               sdp_groups = Some [\<lparr> g_type = ''BUNDLE'', g_mids = Str ''0 1 2 2'' \<rparr>] \<rparr>"

definition parse_sample :: "string \<Rightarrow> tdesc" where
  "parse_sample s =
     (if s = text_a then desc_a
      else if s = text_av then desc_av
      else if s = text_av3 then desc_av3
      else if s = text_av4 then desc_av4
      else \<lparr> sdp_session = [], sdp_media = [], sdp_groups = None \<rparr>)"

definition write_sample :: "tdesc \<Rightarrow> string" where
  "write_sample d =
     (if d = desc_a then text_a
      else if d = desc_av then text_av
      else if d = desc_av3 then text_av3
      else if d = desc_av4 then text_av4
      else [])"

definition model_av :: SDP where
  "model_av = SDP_new text_av False"

definition returned :: "'a completion \<Rightarrow> bool" where
  "returned r = (case r of Returns s \<Rightarrow> True | Throws s \<Rightarrow> False)"

text \<open>A description with two video sections, the second with port 0 and marked receive-only,
  the model constructed from it for a conference and for a peer-to-peer session, a model whose
  only section is that second one, and a stanza under construction: the \<^verbatim>\<open>jingle\<close> element,
  with the builder pointing at it.\<close>

definition section_first :: string where
  "section_first = ln ''m=video 9 UDP/TLS/RTP/SAVPF 100'' @ ln ''a=mid:0'' @ ln ''a=sendrecv''
                   @ ln ''a=rtpmap:100 VP8/90000'' @ ln ''a=ssrc:1 msid:s t''"

definition section_second :: string where
  "section_second = ln ''m=video 0 UDP/TLS/RTP/SAVPF 100'' @ ln ''a=mid:1'' @ ln ''a=recvonly''
                    @ ln ''a=rtpmap:100 VP8/90000'' @ ln ''a=ssrc:2 msid:s2 t2''"

definition text_session :: string where
  "text_session = ln ''v=0'' @ ln ''o=- 1 2 IN IP4 0.0.0.0'' @ ln ''s=-'' @ ln ''t=0 0''"

definition model_vv :: SDP where
  "model_vv = SDP_new (text_session @ section_first @ section_second) False"


definition model_v0 :: SDP where
  "model_v0 = SDP_new (text_session @ section_second) False"

definition stanza0 :: builder where
  "stanza0 = \<lparr> nodeTree = Elem ''jingle'' [] [], node = Some [] \<rparr>"

text \<open>A model whose only section is marked receive-only and has a port other than 0.\<close>

definition model_r :: SDP where
  "model_r = SDP_new (text_session @ ln ''m=audio 9 UDP/TLS/RTP/SAVPF 111'' @ ln ''a=mid:0''
                      @ ln ''a=recvonly'' @ ln ''a=rtpmap:111 opus/48000/2'') False"

text \<open>A model whose video section has a feedback line for the payload type 100, and a stanza
  under construction at the payload type.\<close>

definition model_fb :: SDP where
  "model_fb = SDP_new (text_session @ ln ''m=video 9 UDP/TLS/RTP/SAVPF 100'' @ ln ''a=mid:0''
                       @ ln ''a=rtpmap:100 VP8/90000'' @ ln ''a=rtcp-fb:100 nack pli'') False"

definition stanza_pt :: builder where
  "stanza_pt = \<lparr> nodeTree = Elem ''payload-type'' [(''id'', ''100'')] [], node = Some [] \<rparr>"








section \<open>Properties of the constructor\<close>

lemma split_from_not_Nil: "split_from sep acc s \<noteq> []"
  by (induction sep acc s rule: split_from.induct) auto

lemma join_split_from:
  "sep \<noteq> [] \<Longrightarrow> join sep (split_from sep acc s) = acc @ s"
proof (induction sep acc s rule: split_from.induct)
  case (1 sep acc)
  then show ?case by simp
next
  case (2 sep acc c cs)
  show ?case
  proof (cases "take (length sep) (c # cs) = sep")
    case True
    obtain y ys where ys: "split_from sep [] (drop (length sep) (c # cs)) = y # ys"
      using split_from_not_Nil [of sep "[]" "drop (length sep) (c # cs)"]
      by (cases "split_from sep [] (drop (length sep) (c # cs))") auto
    have "join sep (y # ys) = drop (length sep) (c # cs)"
      using 2 True ys by simp
    then have "join sep (acc # y # ys) = acc @ sep @ drop (length sep) (c # cs)"
      by simp
    moreover have "sep @ drop (length sep) (c # cs) = c # cs"
      using True by (metis append_take_drop_id)
    ultimately show ?thesis using 2 True ys by simp
  next
    case False
    then show ?thesis using 2 by simp
  qed
qed

lemma split_from_single:
  "sep \<noteq> [] \<Longrightarrow> (length (split_from sep acc s) = 1) = (\<not> (\<exists>a b. s = a @ sep @ b))"
proof (induction sep acc s rule: split_from.induct)
  case (1 sep acc)
  then show ?case by simp
next
  case (2 sep acc c cs)
  show ?case
  proof (cases "take (length sep) (c # cs) = sep")
    case True
    have "c # cs = [] @ sep @ drop (length sep) (c # cs)"
      using True by (metis append_Nil append_take_drop_id)
    then have "\<exists>a b. c # cs = a @ sep @ b" by blast
    moreover have "length (split_from sep acc (c # cs)) \<noteq> 1"
      using 2 True split_from_not_Nil [of sep "[]" "drop (length sep) (c # cs)"] by simp
    ultimately show ?thesis by blast
  next
    case False
    have "(\<exists>a b. c # cs = a @ sep @ b) = (\<exists>a b. cs = a @ sep @ b)"
    proof
      assume "\<exists>a b. c # cs = a @ sep @ b"
      then obtain a b where ab: "c # cs = a @ sep @ b" by blast
      show "\<exists>a b. cs = a @ sep @ b"
      proof (cases a)
        case Nil
        then have "take (length sep) (c # cs) = sep" using ab by simp
        then show ?thesis using False by simp
      next
        case (Cons x a')
        then have "cs = a' @ sep @ b" using ab by simp
        then show ?thesis by blast
      qed
    next
      assume "\<exists>a b. cs = a @ sep @ b"
      then obtain a b where "cs = a @ sep @ b" by blast
      then have "c # cs = (c # a) @ sep @ b" by simp
      then show "\<exists>a b. c # cs = a @ sep @ b" by blast
    qed
    then show ?thesis using 2 False by simp
  qed
qed

lemma join_conv: "join sep (x # xs) = x @ concat (map (\<lambda>y. sep @ y) xs)"
  by (induction xs arbitrary: x) auto

lemma sealed_snoc:
  "concat (map (\<lambda>i. ''m='' @ (ps @ [x]) ! i @ (if i \<noteq> length ps then CRLF else []))
       [0..<Suc (length ps)])
   = concat (map (\<lambda>y. ''m='' @ y @ CRLF) ps) @ ''m='' @ x"
proof -
  have "map (\<lambda>i. ''m='' @ (ps @ [x]) ! i @ (if i \<noteq> length ps then CRLF else [])) [0..<length ps]
        = map (\<lambda>i. ''m='' @ ps ! i @ CRLF) [0..<length ps]"
    by (rule map_cong) (auto simp: nth_append)
  also have "\<dots> = map (\<lambda>y. ''m='' @ y @ CRLF) ps"
    by (rule nth_equalityI) auto
  finally show ?thesis by simp
qed

lemma sealed_sections:
  assumes "ps \<noteq> []"
  shows "CRLF @ concat (map (\<lambda>i. ''m='' @ (p0 # ps) ! i @
            (if i \<noteq> length (p0 # ps) - 1 then CRLF else [])) [1..<length (p0 # ps)])
         = concat (map (\<lambda>y. (CRLF @ ''m='') @ y) ps)"
proof -
  obtain qs x where ps: "ps = qs @ [x]"
    using assms by (cases ps rule: rev_cases) auto
  have "[1..<length (p0 # ps)] = map Suc [0..<Suc (length qs)]"
    unfolding ps by (simp only: map_Suc_upt) simp
  then have "map (\<lambda>i. ''m='' @ (p0 # ps) ! i @ (if i \<noteq> length (p0 # ps) - 1 then CRLF else []))
          [1..<length (p0 # ps)]
        = map (\<lambda>i. ''m='' @ ps ! i @ (if i \<noteq> length qs then CRLF else [])) [0..<Suc (length qs)]"
    unfolding ps by (simp add: comp_def del: upt_Suc)
  then have "concat (map (\<lambda>i. ''m='' @ (p0 # ps) ! i @
            (if i \<noteq> length (p0 # ps) - 1 then CRLF else [])) [1..<length (p0 # ps)])
      = concat (map (\<lambda>y. ''m='' @ y @ CRLF) qs) @ ''m='' @ x"
    unfolding ps using sealed_snoc [of qs x] by simp
  moreover have "CRLF @ concat (map (\<lambda>y. ''m='' @ y @ CRLF) qs) @ ''m='' @ x
      = concat (map (\<lambda>y. (CRLF @ ''m='') @ y) (qs @ [x]))"
    by (induction qs) auto
  ultimately show ?thesis unfolding ps by simp
qed

text \<open>Claim C10. A text with at least one media line after a line end is given back unchanged,
  character for character, by the full re-serialization of the model built from it (the
  session part followed by the media sections in order, which is what \<^verbatim>\<open>raw\<close> holds); a text
  with no such media line comes back with one line end appended.\<close>

theorem constructor_reserialization:
  "raw (SDP_new sdp p) = session (SDP_new sdp p) @ concat (media (SDP_new sdp p)) \<and>
   ((\<exists>a b. sdp = a @ CRLF @ ''m='' @ b) \<longrightarrow> raw (SDP_new sdp p) = sdp) \<and>
   (\<not> (\<exists>a b. sdp = a @ CRLF @ ''m='' @ b) \<longrightarrow> raw (SDP_new sdp p) = sdp @ CRLF)"
proof -
  let ?sep = "CRLF @ ''m=''"
  let ?parts = "split_from ?sep [] sdp"
  have sep: "?sep \<noteq> []" by simp
  obtain p0 ps where parts: "?parts = p0 # ps"
    using split_from_not_Nil [of ?sep "[]" sdp] by (cases ?parts) auto
  have js: "join ?sep (p0 # ps) = sdp"
    using join_split_from [OF sep, of "[]" sdp] parts by simp
  have single: "(ps = []) = (\<not> (\<exists>a b. sdp = a @ ?sep @ b))"
    using split_from_single [OF sep, of "[]" sdp] parts by simp
  have r: "raw (SDP_new sdp p) = p0 @ CRLF @ concat (map (\<lambda>i. ''m='' @ (p0 # ps) ! i @
            (if i \<noteq> length (p0 # ps) - 1 then CRLF else [])) [1..<length (p0 # ps)])"
    using parts by (simp add: SDP_new_def split_def Let_def)
  have c1: "raw (SDP_new sdp p) = session (SDP_new sdp p) @ concat (media (SDP_new sdp p))"
    by (simp add: SDP_new_def Let_def)
  have c2: "ps \<noteq> [] \<Longrightarrow> raw (SDP_new sdp p) = sdp"
    using r sealed_sections [of ps p0] js by (simp add: join_conv)
  have c3: "ps = [] \<Longrightarrow> raw (SDP_new sdp p) = sdp @ CRLF"
    using r js by simp
  show ?thesis using c1 c2 c3 single by auto
qed

theorem constructor_reserialization_witness:
  "(\<exists>a b. ''v=0'' @ CRLF @ ''m=audio 9 RTP 0'' @ CRLF @ ''a=mid:0'' @ CRLF @ ''m=video 9 RTP 100''
            = a @ CRLF @ ''m='' @ b) \<and>
   raw (SDP_new (''v=0'' @ CRLF @ ''m=audio 9 RTP 0'' @ CRLF @ ''a=mid:0'' @ CRLF @ ''m=video 9 RTP 100'') False)
     = ''v=0'' @ CRLF @ ''m=audio 9 RTP 0'' @ CRLF @ ''a=mid:0'' @ CRLF @ ''m=video 9 RTP 100'' \<and>
   \<not> (\<exists>a b. ''v=0'' = a @ CRLF @ ''m='' @ b) \<and>
   raw (SDP_new ''v=0'' False) = ''v=0'' @ CRLF"
proof -
  let ?t = "''v=0'' @ CRLF @ ''m=audio 9 RTP 0'' @ CRLF @ ''a=mid:0'' @ CRLF @ ''m=video 9 RTP 100''"
  have e: "\<exists>a b. ?t = a @ CRLF @ ''m='' @ b"
    by (rule exI [of _ "''v=0''"], rule exI [of _ "''audio 9 RTP 0'' @ CRLF @ ''a=mid:0'' @ CRLF @ ''m=video 9 RTP 100''"]) simp
  have n: "\<not> (\<exists>a b. ''v=0'' = a @ CRLF @ ''m='' @ b)"
  proof
    assume "\<exists>a b. ''v=0'' = a @ CRLF @ ''m='' @ b"
    then obtain a b where "''v=0'' = a @ CRLF @ ''m='' @ b" by blast
    then have "length ''v=0'' = length (a @ CRLF @ ''m='' @ b)" by simp
    then show False by (simp add: CRLF_def)
  qed
  show ?thesis
    using e n constructor_reserialization [of ?t False] constructor_reserialization [of "''v=0''" False]
    by blast
qed

section \<open>Properties of the stanza to description direction\<close>

lemma each_conv: "each f xs = concat (map f xs)"
proof -
  have "fold (\<lambda>x sdp. sdp @ f x) xs acc = acc @ concat (map f xs)" for acc
    by (induction xs arbitrary: acc) auto
  then show ?thesis by (simp add: each_def)
qed






lemma media_fold:
  "fold (\<lambda>content m. m @ [f content]) cs ms = ms @ map f cs"
  by (induction cs arbitrary: ms) auto

lemma group_lines_fold:
  "fold group_line gs acc = acc @ concat (map (\<lambda>g. group_line g []) gs)"
proof (induction gs arbitrary: acc)
  case Nil
  then show ?case by simp
next
  case (Cons g gs)
  have "group_line g acc = acc @ group_line g []"
    by (simp add: group_line_def Let_def)
  then show ?case using Cons by simp
qed

lemma jingle2media_flags:
  "failICE st' = failICE st \<Longrightarrow> removeTcpCandidates st' = removeTcpCandidates st
   \<Longrightarrow> removeUdpCandidates st' = removeUdpCandidates st
   \<Longrightarrow> jingle2media K U st' = jingle2media K U st"
proof -
  assume a: "failICE st' = failICE st" "removeTcpCandidates st' = removeTcpCandidates st"
    "removeUdpCandidates st' = removeUdpCandidates st"
  have "j2m_candidate U st' = j2m_candidate U st"
    by (rule ext)+ (simp add: j2m_candidate_def candidate_dropped_def a)
  then show ?thesis
    by (rule_tac ext) (simp add: jingle2media_def j2m_candidates_def)
qed

text \<open>Claim C9, as the code has it. \<^verbatim>\<open>fromJingle\<close> builds the session part afresh from the
  session id and the groups of the stanza, whatever the model held; the serialized text is
  the session part followed by the media sections; but the sections built from the stanza
  are pushed onto the sections the model already holds. Only for a model without sections
  (one constructed from the empty string) is the list the freshly built one.\<close>

theorem fromJingle_appends:
  "session (fromJingle K U n j st)
     = ''v=0'' @ CRLF @ ''o=- '' @ show_nat n @ '' 2 IN IP4 0.0.0.0'' @ CRLF
       @ ''s=-'' @ CRLF @ ''t=0 0'' @ CRLF
       @ concat (map (\<lambda>g. if map_get (\<lambda>c. getAttribute c ''name'')
                                (find_children (tagged ''content'') [g]) = []
                            then []
                            else ''a=group:''
                                 @ (if truthy (getAttribute g ''semantics'')
                                    then str_null (getAttribute g ''semantics'')
                                    else str_null (getAttribute g ''type''))
                                 @ '' ''
                                 @ join '' '' (map_get (\<lambda>c. getAttribute c ''name'')
                                                 (find_children (tagged ''content'') [g]))
                                 @ CRLF)
                   (find_children (tagged_ns ''group'' (BUNDLE_MEDIA K)) [j])) \<and>
   session (fromJingle K U n j st) = session (fromJingle K U n j st') \<and>
   media (fromJingle K U n j st)
     = media st @ map (jingle2media K U st) (find_children (tagged ''content'') [j]) \<and>
   media (fromJingle K U n j (st\<lparr>media := []\<rparr>))
     = map (jingle2media K U st) (find_children (tagged ''content'') [j]) \<and>
   raw (fromJingle K U n j st)
     = session (fromJingle K U n j st) @ concat (media (fromJingle K U n j st))"
proof -
  have g: "(\<lambda>g. group_line g [])
           = (\<lambda>g. if map_get (\<lambda>c. getAttribute c ''name'')
                                (find_children (tagged ''content'') [g]) = []
                            then []
                            else ''a=group:''
                                 @ (if truthy (getAttribute g ''semantics'')
                                    then str_null (getAttribute g ''semantics'')
                                    else str_null (getAttribute g ''type''))
                                 @ '' ''
                                 @ join '' '' (map_get (\<lambda>c. getAttribute c ''name'')
                                                 (find_children (tagged ''content'') [g]))
                                 @ CRLF)"
    unfolding group_line_def Let_def by (intro ext) simp
  have s: "session (fromJingle K U n j st)
           = (''v=0'' @ CRLF @ ''o=- '' @ show_nat n @ '' 2 IN IP4 0.0.0.0'' @ CRLF
              @ ''s=-'' @ CRLF @ ''t=0 0'' @ CRLF)
             @ concat (map (\<lambda>g. group_line g [])
                         (find_children (tagged_ns ''group'' (BUNDLE_MEDIA K)) [j]))" for st
    unfolding fromJingle_def Let_def by (simp add: group_lines_fold)
  have one: "session (fromJingle K U n j st)
     = ''v=0'' @ CRLF @ ''o=- '' @ show_nat n @ '' 2 IN IP4 0.0.0.0'' @ CRLF
       @ ''s=-'' @ CRLF @ ''t=0 0'' @ CRLF
       @ concat (map (\<lambda>g. if map_get (\<lambda>c. getAttribute c ''name'')
                                (find_children (tagged ''content'') [g]) = []
                            then []
                            else ''a=group:''
                                 @ (if truthy (getAttribute g ''semantics'')
                                    then str_null (getAttribute g ''semantics'')
                                    else str_null (getAttribute g ''type''))
                                 @ '' ''
                                 @ join '' '' (map_get (\<lambda>c. getAttribute c ''name'')
                                                 (find_children (tagged ''content'') [g]))
                                 @ CRLF)
                   (find_children (tagged_ns ''group'' (BUNDLE_MEDIA K)) [j]))"
    unfolding s g by simp
  have two: "session (fromJingle K U n j st) = session (fromJingle K U n j st')"
    unfolding s ..
  have f: "jingle2media K U (st\<lparr>media := []\<rparr>) = jingle2media K U st"
    by (rule jingle2media_flags) simp_all
  have three: "media (fromJingle K U n j st)
     = media st @ map (jingle2media K U st) (find_children (tagged ''content'') [j])"
    by (simp add: fromJingle_def Let_def media_fold)
  have four: "media (fromJingle K U n j (st\<lparr>media := []\<rparr>))
     = map (jingle2media K U st) (find_children (tagged ''content'') [j])"
    by (simp add: fromJingle_def Let_def media_fold f)
  have five: "raw (fromJingle K U n j st)
     = session (fromJingle K U n j st) @ concat (media (fromJingle K U n j st))"
    by (simp add: fromJingle_def Let_def)
  show ?thesis using one two three four five by blast
qed

text \<open>A model constructed from a text with one section keeps that section in front of the
  one built from the stanza.\<close>

theorem fromJingle_keeps_sections:
  "media (fromJingle constants SDPUtil 1 jingle_one model_a)
   = (ln ''m=audio 9 UDP/TLS/RTP/SAVPF 111'' @ ln ''a=mid:0'' @ ln ''a=sendrecv''
      @ ln ''a=rtpmap:111 opus/48000/2'')
     # media (fromJingle constants SDPUtil 1 jingle_one (SDP_new [] False))
   \<and> media (fromJingle constants SDPUtil 1 jingle_one model_a)
     \<noteq> media (fromJingle constants SDPUtil 1 jingle_one (SDP_new [] False))
   \<and> raw (fromJingle constants SDPUtil 1 jingle_one model_a)
     \<noteq> raw (fromJingle constants SDPUtil 1 jingle_one (SDP_new [] False))"
  by code_simp


section \<open>Properties of the added media section and of the SSRC map\<close>

lemma split_from_no_sep:
  "c \<notin> set s \<Longrightarrow> split_from [c] acc s = [acc @ s]"
  by (induction s arbitrary: acc) auto

lemma split_from_pieces:
  "c \<notin> set acc \<Longrightarrow> x \<in> set (split_from [c] acc s) \<Longrightarrow> c \<notin> set x"
proof (induction "[c]" acc s arbitrary: x rule: split_from.induct)
  case (1 acc)
  then show ?case by simp
next
  case (2 acc d ds)
  then show ?case by (auto split: if_splits)
qed

lemma split_from_join:
  "\<forall>x \<in> set (y # ys). c \<notin> set x \<Longrightarrow> c \<notin> set acc
   \<Longrightarrow> split_from [c] acc (join [c] (y # ys)) = (acc @ y) # ys"
proof (induction ys arbitrary: y acc)
  case Nil
  then show ?case by (simp add: split_from_no_sep)
next
  case (Cons z zs)
  have step: "split_from [c] acc (y @ c # rest) = (acc @ y) # split_from [c] [] rest"
    if "c \<notin> set y" for y acc rest
    using that by (induction y arbitrary: acc) auto
  have "split_from [c] [] (join [c] (z # zs)) = z # zs"
    using Cons.IH [of z "[]"] Cons.prems by simp
  then show ?case using Cons.prems step [of y acc "join [c] (z # zs)"] by simp
qed

lemma digit_not_space: "k < 10 \<Longrightarrow> char_of (48 + k) \<noteq> CHR '' ''" for k :: nat
proof
  assume k: "k < 10" and eq: "char_of (48 + k) = CHR '' ''"
  have "(of_char (char_of (48 + k)) :: nat) = of_char (CHR '' '')"
    using eq by simp
  then have "(48 + k) mod 256 = (32 :: nat)"
    by (simp add: of_char_of)
  then show False using k by simp
qed

lemma show_nat_no_space: "CHR '' '' \<notin> set (show_nat n)"
proof (induction n rule: show_nat.induct)
  case (1 n)
  show ?case
  proof (cases "n < 10")
    case True
    then show ?thesis using digit_not_space [of n] by (simp add: show_nat.simps [of n])
  next
    case False
    then show ?thesis
      using 1 digit_not_space [of "n mod 10"] by (simp add: show_nat.simps [of n])
  qed
qed

lemma mids_appended:
  "split '' '' (join '' '' (split '' '' mids @ [show_nat n])) = split '' '' mids @ [show_nat n]"
proof -
  obtain y ys where p: "split_from '' '' [] mids = y # ys"
    using split_from_not_Nil [of "'' ''" "[]" mids] by (cases "split_from '' '' [] mids") auto
  have "\<forall>x \<in> set (y # ys @ [show_nat n]). CHR '' '' \<notin> set x"
    using split_from_pieces [of "CHR '' ''" "[]" _ mids] p show_nat_no_space by auto
  then have "split_from '' '' [] (join '' '' (y # ys @ [show_nat n])) = y # ys @ [show_nat n]"
    using split_from_join [of y "ys @ [show_nat n]" "CHR '' ''" "[]"] by simp
  then show ?thesis using p by (simp add: split_def)
qed

lemma those_regroup:
  "\<forall>g \<in> set groups. g_type g = ''BUNDLE'' \<longrightarrow> (\<exists>mids. g_mids g = Str mids)
   \<Longrightarrow> those (map (regroup n) groups)
       = Some (map (\<lambda>g. if g_type g = ''BUNDLE''
                         then g \<lparr> g_mids := Str (case g_mids g of
                                   Str mids \<Rightarrow> join '' '' (split '' '' mids @ [show_nat n])
                                 | Num k \<Rightarrow> []) \<rparr>
                         else g) groups)"
  by (induction groups) (auto simp: regroup_def)

text \<open>What a call does. When the parsed description has a section of the requested
  type and its groups are there, and every BUNDLE group holds its mids as a string, the
  method returns, and the description it writes back has exactly one section more: at the
  end, the first section of that type with direction receive-only and without msid, SSRC
  lines and SSRC groups; every BUNDLE group has its mid list with one more entry at the end,
  and the other groups are unchanged. The mid of the new section and that entry are the
  length of the model's own media list, which the method does not update: it is the index
  of the new section only while that list is as long as the parsed description.\<close>

lemma addMline_appends_section:
  assumes "find (\<lambda>m. t_type m = mt) (sdp_media (parse (raw st))) = Some found"
    and "sdp_groups (parse (raw st)) = Some groups"
    and "\<forall>g \<in> set groups. g_type g = ''BUNDLE'' \<longrightarrow> (\<exists>mids. g_mids g = Str mids)"
  shows "\<exists>sdp'. addMlineForNewLocalSource K parse write mt st = Returns (st \<lparr> raw := write sdp' \<rparr>)
           \<and> sdp_session sdp' = sdp_session (parse (raw st))
           \<and> length (sdp_media sdp') = length (sdp_media (parse (raw st))) + 1
           \<and> sdp_media sdp'
               = sdp_media (parse (raw st))
                 @ [found \<lparr> t_mid := Some (Num (length (media st))), t_direction := Some (RECVONLY K),
                            t_msid := None, t_ssrcs := None, t_ssrcGroups := None \<rparr>]
           \<and> (\<exists>groups'. sdp_groups sdp' = Some groups' \<and> length groups' = length groups
                \<and> (\<forall>k < length groups.
                      g_type (groups' ! k) = g_type (groups ! k)
                      \<and> (g_type (groups ! k) \<noteq> ''BUNDLE'' \<longrightarrow> groups' ! k = groups ! k)
                      \<and> (\<forall>mids. g_type (groups ! k) = ''BUNDLE'' \<and> g_mids (groups ! k) = Str mids \<longrightarrow>
                            (\<exists>mids'. g_mids (groups' ! k) = Str mids'
                               \<and> split '' '' mids' = split '' '' mids @ [show_nat (length (media st))]))))"
proof -
  let ?n = "length (media st)"
  let ?ml = "found \<lparr> t_mid := Some (Num ?n), t_direction := Some (RECVONLY K),
                     t_msid := None, t_ssrcs := None, t_ssrcGroups := None \<rparr>"
  let ?g = "map (\<lambda>g. if g_type g = ''BUNDLE''
                       then g \<lparr> g_mids := Str (case g_mids g of
                                 Str mids \<Rightarrow> join '' '' (split '' '' mids @ [show_nat ?n])
                               | Num k \<Rightarrow> []) \<rparr>
                       else g) groups"
  let ?sdp = "(parse (raw st)) \<lparr> sdp_media := sdp_media (parse (raw st)) @ [?ml],
                                  sdp_groups := Some ?g \<rparr>"
  have r: "addMlineForNewLocalSource K parse write mt st = Returns (st \<lparr> raw := write ?sdp \<rparr>)"
    using assms(1,2) those_regroup [OF assms(3), of ?n]
    by (simp add: addMlineForNewLocalSource_def Let_def)
  have g: "\<forall>k < length groups.
             g_type (?g ! k) = g_type (groups ! k)
             \<and> (g_type (groups ! k) \<noteq> ''BUNDLE'' \<longrightarrow> ?g ! k = groups ! k)
             \<and> (\<forall>mids. g_type (groups ! k) = ''BUNDLE'' \<and> g_mids (groups ! k) = Str mids \<longrightarrow>
                   (\<exists>mids'. g_mids (?g ! k) = Str mids'
                      \<and> split '' '' mids' = split '' '' mids @ [show_nat ?n]))"
    using mids_appended by auto
  show ?thesis
    apply (rule exI [of _ ?sdp])
    apply (intro conjI)
        apply (rule r)
       apply simp
      apply simp
     apply simp
    apply (rule exI [of _ ?g])
    using g apply simp
    done
qed

lemma addMline_first_call:
  "find (\<lambda>m. t_type m = ''video'') (sdp_media (parse_sample (raw model_av))) = Some section_video
   \<and> sdp_groups (parse_sample (raw model_av)) = Some [\<lparr> g_type = ''BUNDLE'', g_mids = Str ''0 1'' \<rparr>]
   \<and> (\<exists>sdp'. addMlineForNewLocalSource constants parse_sample write_sample ''video'' model_av
                = Returns (model_av \<lparr> raw := write_sample sdp' \<rparr>)
             \<and> length (sdp_media sdp') = 3
             \<and> sdp_media sdp' ! 2 = section_added)"
proof -
  have p: "parse_sample (raw model_av) = desc_av" by code_simp
  have f: "find (\<lambda>m. t_type m = ''video'') (sdp_media (parse_sample (raw model_av))) = Some section_video"
    unfolding p by code_simp
  have g: "sdp_groups (parse_sample (raw model_av)) = Some [\<lparr> g_type = ''BUNDLE'', g_mids = Str ''0 1'' \<rparr>]"
    unfolding p by code_simp
  have b: "\<forall>g \<in> set [\<lparr> g_type = ''BUNDLE'', g_mids = Str ''0 1'' \<rparr>].
             g_type g = ''BUNDLE'' \<longrightarrow> (\<exists>mids. g_mids g = Str mids)"
    by simp
  have n: "length (media model_av) = 2" by code_simp
  have a: "section_video \<lparr> t_mid := Some (Num 2), t_direction := Some (RECVONLY constants),
              t_msid := None, t_ssrcs := None, t_ssrcGroups := None \<rparr> = section_added"
    by code_simp
  obtain sdp' where s: "addMlineForNewLocalSource constants parse_sample write_sample ''video'' model_av
                = Returns (model_av \<lparr> raw := write_sample sdp' \<rparr>)"
      "sdp_media sdp' = sdp_media (parse_sample (raw model_av)) @ [section_added]"
    using addMline_appends_section [of "''video''" parse_sample model_av section_video
        "[\<lparr> g_type = ''BUNDLE'', g_mids = Str ''0 1'' \<rparr>]" constants write_sample]
      f g b n a by auto
  have "length (sdp_media sdp') = 3 \<and> sdp_media sdp' ! 2 = section_added"
    unfolding s(2) p by code_simp
  then show ?thesis using f g s(1) by blast
qed

text \<open>Claim C3 fails on a second call. The method takes the length of the model's media
  list as the mid of the new section, but it writes the new description to the text only:
  the list keeps its length. The first call on a model constructed from a description with
  an audio and a video section appends the section with mid 2 at index 2; a second call on
  the same model appends a section at index 3 with the mid 2 again, and the BUNDLE group
  gets the mids \<^verbatim>\<open>0 1 2 2\<close>.\<close>

theorem addMline_repeated_mid:
  "addMlineForNewLocalSource constants parse_sample write_sample ''video'' model_av
     = Returns (model_av \<lparr> raw := text_av3 \<rparr>)
   \<and> length (media (model_av \<lparr> raw := text_av3 \<rparr>)) = 2
   \<and> addMlineForNewLocalSource constants parse_sample write_sample ''video''
       (model_av \<lparr> raw := text_av3 \<rparr>)
     = Returns (model_av \<lparr> raw := text_av4 \<rparr>)
   \<and> parse_sample text_av4 = desc_av4
   \<and> length (sdp_media desc_av4) = 4
   \<and> t_mid (sdp_media desc_av4 ! 2) = Some (Num 2)
   \<and> t_mid (sdp_media desc_av4 ! 3) = Some (Num 2)
   \<and> sdp_groups desc_av4 = Some [\<lparr> g_type = ''BUNDLE'', g_mids = Str ''0 1 2 2'' \<rparr>]"
  by code_simp

text \<open>Claim C4, as the code has it. Without a section of the requested type the clone is
  \<^verbatim>\<open>undefined\<close> and the assignment to its \<^verbatim>\<open>mid\<close> throws a \<^verbatim>\<open>TypeError\<close>; the model is
  left as it was.\<close>

theorem addMline_missing_type_throws:
  "find (\<lambda>m. t_type m = mt) (sdp_media (parse (raw st))) = None
   \<Longrightarrow> addMlineForNewLocalSource K parse write mt st = Throws st"
  by (simp add: addMlineForNewLocalSource_def Let_def)

theorem addMline_missing_type_throws_witness:
  "find (\<lambda>m. t_type m = ''video'') (sdp_media (parse_sample (raw model_a))) = None
   \<and> addMlineForNewLocalSource constants parse_sample write_sample ''video'' model_a = Throws model_a"
proof -
  have f: "find (\<lambda>m. t_type m = ''video'') (sdp_media (parse_sample (raw model_a))) = None"
    by code_simp
  show ?thesis
    using f addMline_missing_type_throws [of "''video''" parse_sample model_a constants write_sample]
    by simp
qed

theorem addMline_missing_type_not_silent:
  "\<not> returned (addMlineForNewLocalSource constants parse_sample write_sample ''video'' model_a)"
  by code_simp

lemma forEach_ssrc_own:
  "forEach ssrc_line_step ls own = Some own' \<Longrightarrow> k \<in> set Object_prototype
   \<Longrightarrow> own k = None \<Longrightarrow> own' k = None"
proof (induction ls arbitrary: own)
  case Nil
  then show ?case by simp
next
  case (Cons l ls)
  then obtain own1 where 1: "ssrc_line_step l own = Some own1" "forEach ssrc_line_step ls own1 = Some own'"
    by (auto split: option.splits)
  have "own1 k = None"
    using 1(1) Cons.prems(2,3)
    by (auto simp: ssrc_line_step_def get_property_def Let_def split: option.splits if_splits)
  then show ?case using Cons.IH [OF 1(2) Cons.prems(2)] by simp
qed

lemma those_nth:
  "those xs = Some ys \<Longrightarrow> length ys = length xs \<and> (\<forall>i < length xs. xs ! i = Some (ys ! i))"
proof (induction xs arbitrary: ys)
  case Nil
  then show ?case by simp
next
  case (Cons x xs)
  then obtain y ys' where "x = Some y" "those xs = Some ys'" "ys = y # ys'"
    by (auto split: option.splits)
  then show ?case using Cons.IH [of ys'] by (auto simp: nth_Cons split: nat.splits)
qed

lemma containsSSRC_own:
  assumes "getMediaSsrcMap U st = Some sourceMap" "s \<notin> set Object_prototype"
  shows "containsSSRC U st s = Some (\<exists>m \<in> set sourceMap. i_ssrcs m s \<noteq> None)"
  using assms
  by (auto simp: containsSSRC_def get_property_def list_ex_iff split: option.splits)

lemma containsSSRC_inherited:
  assumes "getMediaSsrcMap U st = Some sourceMap" "s \<in> set Object_prototype" "media st \<noteq> []"
  shows "containsSSRC U st s = Some True"
proof -
  have "length sourceMap = length (media st)"
    using those_nth [of "map (media_info_of U) (enumerate 0 (media st))" sourceMap] assms(1)
    by (simp add: getMediaSsrcMap_def)
  then obtain m ms where "sourceMap = m # ms"
    using assms(3) by (cases sourceMap) auto
  then show ?thesis
    using assms(1,2) by (auto simp: containsSSRC_def get_property_def split: option.splits)
qed

text \<open>Claim C7 at the identifier \<^verbatim>\<open>toString\<close>. The model has one section, with no SSRC line;
  the SSRC map of that section has no entry for \<^verbatim>\<open>toString\<close>, and \<^verbatim>\<open>containsSSRC\<close> gives
  \<^verbatim>\<open>true\<close>: the lookup in the plain object finds the inherited method.\<close>

theorem containsSSRC_toString:
  "map_option (map (\<lambda>m. i_ssrcs m ''toString'')) (getMediaSsrcMap SDPUtil model_a) = Some [None]
   \<and> containsSSRC SDPUtil model_a ''toString'' = Some True"
  by code_simp


section \<open>What the builder code builds\<close>

lemma sub_at_append:
  "sub_at (p @ q) t = (case sub_at p t of None \<Rightarrow> None | Some n \<Rightarrow> sub_at q n)"
  by (induction p arbitrary: t) auto

lemma sub_at_upd_at:
  "sub_at p t = Some n \<Longrightarrow> sub_at p (upd_at p f t) = Some (f n)"
proof (induction p arbitrary: t)
  case Nil
  then show ?case by simp
next
  case (Cons i p)
  then show ?case by (cases t) (auto split: if_splits)
qed

lemma upd_at_upd_at:
  "upd_at p f (upd_at p g t) = upd_at p (f \<circ> g) t"
proof (induction p arbitrary: t)
  case Nil
  then show ?case by simp
next
  case (Cons i p)
  then show ?case by (cases t) auto
qed

lemma upd_at_append:
  "upd_at (p @ q) f t = upd_at p (upd_at q f) t"
proof (induction p arbitrary: t)
  case Nil
  then show ?case by simp
next
  case (Cons i p)
  then show ?case by (cases t) auto
qed

lemma upd_at_cong:
  "sub_at p t = Some n \<Longrightarrow> f n = g n \<Longrightarrow> upd_at p f t = upd_at p g t"
proof (induction p arbitrary: t)
  case Nil
  then show ?case by simp
next
  case (Cons i p)
  then show ?case by (cases t) (auto split: if_splits)
qed

lemma buildsI:
  assumes "\<And>b p n. node b = Some p \<Longrightarrow> sub_at p (nodeTree b) = Some n \<Longrightarrow> is_elem n \<Longrightarrow>
             B b = Some (b \<lparr> nodeTree := upd_at p F (nodeTree b) \<rparr>) \<and> is_elem (F n)"
  shows "builds B F"
  using assms unfolding builds_def by blast

lemma buildsD:
  assumes "builds B F" "node b = Some p" "sub_at p (nodeTree b) = Some n" "is_elem n"
  shows "B b = Some (b \<lparr> nodeTree := upd_at p F (nodeTree b) \<rparr>)" "is_elem (F n)"
  using assms unfolding builds_def by blast+

lemma builds_Some: "builds Some (\<lambda>n. n)"
proof (rule buildsI)
  fix b :: builder and p n
  assume "node b = Some p" "sub_at p (nodeTree b) = Some n" "is_elem n"
  have "upd_at p (\<lambda>n. n) t = t" for t
    by (induction p arbitrary: t) (auto split: xml.splits simp: list_update_same_conv)
  then show "Some b = Some (b \<lparr> nodeTree := upd_at p (\<lambda>n. n) (nodeTree b) \<rparr>) \<and> is_elem n"
    using \<open>is_elem n\<close> by simp
qed

lemma builds_bind:
  assumes "builds B1 F1" "builds B2 F2"
  shows "builds (\<lambda>b. B1 b \<bind> B2) (\<lambda>n. F2 (F1 n))"
proof (rule buildsI)
  fix b :: builder and p n
  assume h: "node b = Some p" "sub_at p (nodeTree b) = Some n" "is_elem n"
  let ?b1 = "b \<lparr> nodeTree := upd_at p F1 (nodeTree b) \<rparr>"
  have 1: "B1 b = Some ?b1" "is_elem (F1 n)"
    using buildsD [OF assms(1) h] by auto
  have s1: "sub_at p (nodeTree ?b1) = Some (F1 n)"
    using h(2) by (simp add: sub_at_upd_at)
  have 2: "B2 ?b1 = Some (?b1 \<lparr> nodeTree := upd_at p F2 (nodeTree ?b1) \<rparr>)" "is_elem (F2 (F1 n))"
    using buildsD [OF assms(2) _ s1 1(2)] h(1) by auto
  have "upd_at p F2 (upd_at p F1 (nodeTree b)) = upd_at p (\<lambda>n. F2 (F1 n)) (nodeTree b)"
    by (simp add: upd_at_upd_at comp_def)
  then show "B1 b \<bind> B2 = Some (b \<lparr> nodeTree := upd_at p (\<lambda>n. F2 (F1 n)) (nodeTree b) \<rparr>)
        \<and> is_elem (F2 (F1 n))"
    using 1 2 by simp
qed

lemma is_elem_appendChild [simp]: "is_elem (appendChild x n) = is_elem n"
  by (cases n) (auto simp: is_elem_def)

lemma is_elem_xmlElement [simp]: "is_elem (xmlElement name attrs)"
  by (simp add: is_elem_def xmlElement_def)

lemma is_elem_setAttribute [simp]: "is_elem (setAttribute k v n) = is_elem n"
  by (cases n) (auto simp: is_elem_def)

lemma is_elem_set_attrs [simp]:
  "is_elem (fold (\<lambda>kv. setAttribute (fst kv) (snd kv)) kvs n) = is_elem n"
  by (induction kvs arbitrary: n) auto

lemma builds_attrs:
  "builds (elem_attrs kvs) (fold (\<lambda>kv. setAttribute (fst kv) (snd kv)) kvs)"
  by (rule buildsI) (simp add: elem_attrs_def with_node_def)

lemma builds_t: "builds (elem_t s) (appendChild (Text s))"
  by (rule buildsI) (simp add: elem_t_def with_node_def)

lemma builds_child:
  assumes "builds B F"
  shows "builds (\<lambda>b. elem_c name attrs b \<bind> B \<bind> elem_up)
           (appendChild (F (xmlElement name attrs)))"
proof (rule buildsI)
  fix b :: builder and p n
  assume h: "node b = Some p" "sub_at p (nodeTree b) = Some n" "is_elem n"
  obtain t a ks where n: "n = Elem t a ks"
    using h(3) by (cases n) (auto simp: is_elem_def)
  let ?x = "xmlElement name attrs"
  let ?q = "p @ [length ks]"
  let ?b1 = "b \<lparr> nodeTree := upd_at p (appendChild ?x) (nodeTree b), node := Some ?q \<rparr>"
  have c: "elem_c name attrs b = Some ?b1"
    using h n by (simp add: elem_c_def with_node_def)
  have s1: "sub_at ?q (nodeTree ?b1) = Some ?x"
    using h(2) n by (simp add: sub_at_append sub_at_upd_at)
  let ?b2 = "?b1 \<lparr> nodeTree := upd_at ?q F (nodeTree ?b1) \<rparr>"
  have B: "B ?b1 = Some ?b2" "is_elem (F ?x)"
    using buildsD [OF assms _ s1] by auto
  have s2: "sub_at ?q (nodeTree ?b2) = Some (F ?x)"
    using s1 by (simp add: sub_at_upd_at)
  have u: "elem_up ?b2 = Some (?b2 \<lparr> node := Some p \<rparr>)"
    using s2 by (simp add: elem_up_def with_node_def)
  have "upd_at ?q F (upd_at p (appendChild ?x) (nodeTree b))
        = upd_at p (upd_at [length ks] F \<circ> appendChild ?x) (nodeTree b)"
    by (simp add: upd_at_append upd_at_upd_at)
  also have "\<dots> = upd_at p (appendChild (F ?x)) (nodeTree b)"
    by (rule upd_at_cong [OF h(2)]) (simp add: n)
  finally have t: "nodeTree ?b2 = upd_at p (appendChild (F ?x)) (nodeTree b)"
    by simp
  have "?b2 \<lparr> node := Some p \<rparr> = b \<lparr> nodeTree := upd_at p (appendChild (F ?x)) (nodeTree b) \<rparr>"
    using t h(1) by simp
  then show "elem_c name attrs b \<bind> B \<bind> elem_up
             = Some (b \<lparr> nodeTree := upd_at p (appendChild (F ?x)) (nodeTree b) \<rparr>)
        \<and> is_elem (appendChild (F ?x) n)"
    using c B u h(3) by simp
qed

lemma builds_forEach:
  assumes "\<And>x. x \<in> set xs \<Longrightarrow> builds (f x) (G x)"
  shows "builds (forEach f xs) (\<lambda>n. fold G xs n)"
  using assms
proof (induction xs)
  case Nil
  then show ?case using builds_Some by simp
next
  case (Cons x xs)
  have 1: "builds (f x) (G x)" using Cons.prems by simp
  have 2: "builds (forEach f xs) (\<lambda>n. fold G xs n)" using Cons by simp
  have "forEach f (x # xs) = (\<lambda>b. f x b \<bind> forEach f xs)"
    by (rule ext) (simp split: option.splits)
  then show ?case using builds_bind [OF 1 2] by simp
qed

lemma is_elem_add_children [simp]: "is_elem (add_children ks n) = is_elem n"
  by (cases n) (auto simp: is_elem_def)

lemma appendChild_add: "appendChild x = add_children [x]"
  by (rule ext) (rename_tac n, case_tac n, auto)

lemma add_children_add: "add_children ks2 (add_children ks1 n) = add_children (ks1 @ ks2) n"
  by (cases n) auto

lemma add_children_Nil: "add_children [] n = n"
  by (cases n) auto

lemma fold_add_children:
  "fold (\<lambda>x. add_children (g x)) xs n = add_children (concat (map g xs)) n"
  by (induction xs arbitrary: n) (auto simp: add_children_add add_children_Nil)

lemma fold_appendChild:
  "fold (\<lambda>x. appendChild (g x)) xs n = add_children (map g xs) n"
  using fold_add_children [of "\<lambda>x. [g x]" xs n] by (simp add: appendChild_add)

lemma builds_eq: "builds B F \<Longrightarrow> F = G \<Longrightarrow> builds B G"
  by simp

lemma builds_child0:
  "builds (\<lambda>b. elem_c name attrs b \<bind> elem_up) (appendChild (xmlElement name attrs))"
proof -
  have "(\<lambda>b. elem_c name attrs b \<bind> elem_up) = (\<lambda>b. elem_c name attrs b \<bind> Some \<bind> elem_up)"
    by (rule ext) simp
  then show ?thesis using builds_child [OF builds_Some, of name attrs] by simp
qed

lemma builds_if:
  "(c \<Longrightarrow> builds B1 F1) \<Longrightarrow> (\<not> c \<Longrightarrow> builds B2 F2)
   \<Longrightarrow> builds (\<lambda>b. if c then B1 b else B2 b) (if c then F1 else F2)"
  by (cases c) simp_all

lemma builds_rtcpfb_step: "builds (rtcpfb_step K U line) (appendChild (fb_element K U line))"
proof (cases "fb_type (parseRTCPFB U line) = Some ''trr-int''")
  case True
  have "rtcpfb_step K U line
        = (\<lambda>b. elem_c ''rtcp-fb-trr-int'' [(''xmlns'', Some (RTP_FEEDBACK K)),
              (''value'', case fb_params (parseRTCPFB U line) of [] \<Rightarrow> None | v # _ \<Rightarrow> Some v)] b
              \<bind> elem_up)"
    using True by (intro ext) (simp add: rtcpfb_step_def Let_def)
  then show ?thesis
    using True builds_child0 by (simp add: fb_element_def Let_def)
next
  case False
  show ?thesis
  proof (cases "fb_params (parseRTCPFB U line)")
    case Nil
    have "rtcpfb_step K U line
          = (\<lambda>b. elem_c ''rtcp-fb'' [(''xmlns'', Some (RTP_FEEDBACK K)),
                     (''type'', fb_type (parseRTCPFB U line))] b \<bind> Some \<bind> elem_up)"
      using False Nil by (intro ext) (simp add: rtcpfb_step_def Let_def)
    then show ?thesis
      using False Nil builds_child [OF builds_Some] by (simp add: fb_element_def Let_def)
  next
    case (Cons v vs)
    have "rtcpfb_step K U line
          = (\<lambda>b. elem_c ''rtcp-fb'' [(''xmlns'', Some (RTP_FEEDBACK K)),
                     (''type'', fb_type (parseRTCPFB U line))] b
                 \<bind> elem_attrs [(''subtype'', v)] \<bind> elem_up)"
      using False Cons by (intro ext) (simp add: rtcpfb_step_def Let_def)
    then show ?thesis
      using False Cons builds_child [OF builds_attrs [of "[(''subtype'', v)]"]]
      by (simp add: fb_element_def Let_def)
  qed
qed

lemma builds_rtcpFbToJingle:
  assumes "i < length (media st)"
  shows "builds (\<lambda>b. rtcpFbToJingle K U st i b pt)
           (add_children (map (fb_element K U)
              (findLines U (media st ! i) (''a=rtcp-fb:'' @ pt) None)))"
proof -
  have "builds (forEach (rtcpfb_step K U) (findLines U (media st ! i) (''a=rtcp-fb:'' @ pt) None))
          (\<lambda>n. fold (\<lambda>l. appendChild (fb_element K U l))
                  (findLines U (media st ! i) (''a=rtcp-fb:'' @ pt) None) n)"
    by (rule builds_forEach) (rule builds_rtcpfb_step)
  then show ?thesis
    using assms by (simp add: rtcpFbToJingle_def fold_appendChild)
qed

lemma appendsI: "builds B (add_children ks) \<Longrightarrow> appends B"
  unfolding appends_def by blast

lemma appends_Some: "appends Some"
proof -
  have "(\<lambda>n. n) = add_children []" by (rule ext) (simp add: add_children_Nil)
  then show ?thesis using builds_Some appendsI by metis
qed

lemma appends_bind:
  assumes "appends B1" "appends B2"
  shows "appends (\<lambda>b. B1 b \<bind> B2)"
proof -
  obtain k1 k2 where "builds B1 (add_children k1)" "builds B2 (add_children k2)"
    using assms unfolding appends_def by blast
  then have "builds (\<lambda>b. B1 b \<bind> B2) (\<lambda>n. add_children k2 (add_children k1 n))"
    by (rule builds_bind)
  then have "builds (\<lambda>b. B1 b \<bind> B2) (add_children (k1 @ k2))"
    by (simp add: add_children_add)
  then show ?thesis by (rule appendsI)
qed

lemma appends_child:
  assumes "builds B F"
  shows "appends (\<lambda>b. elem_c name attrs b \<bind> B \<bind> elem_up)"
  using builds_child [OF assms, of name attrs] appendsI by (simp add: appendChild_add)

lemma appends_child0: "appends (\<lambda>b. elem_c name attrs b \<bind> elem_up)"
  using builds_child0 [of name attrs] appendsI by (simp add: appendChild_add)

lemma appends_forEach:
  assumes "\<And>x. x \<in> set xs \<Longrightarrow> appends (f x)"
  shows "appends (forEach f xs)"
proof -
  have "\<forall>x \<in> set xs. \<exists>ks. builds (f x) (add_children ks)"
    using assms unfolding appends_def by blast
  then have "\<exists>k. \<forall>x \<in> set xs. builds (f x) (add_children (k x))"
    by (rule bchoice)
  then obtain k where k: "\<And>x. x \<in> set xs \<Longrightarrow> builds (f x) (add_children (k x))"
    by blast
  have "builds (forEach f xs) (\<lambda>n. fold (\<lambda>x. add_children (k x)) xs n)"
    by (rule builds_forEach) (rule k)
  then have "builds (forEach f xs) (add_children (concat (map k xs)))"
    by (simp add: fold_add_children)
  then show ?thesis by (rule appendsI)
qed

lemma appends_if:
  "(c \<Longrightarrow> appends B1) \<Longrightarrow> (\<not> c \<Longrightarrow> appends B2) \<Longrightarrow> appends (\<lambda>b. if c then B1 b else B2 b)"
  by (cases c) simp_all

lemma appends_builds: "appends B \<Longrightarrow> \<exists>F. builds B F"
  unfolding appends_def by blast

lemma builds_attrs': "builds (elem_attrs kvs) (set_attrs kvs)"
  using builds_attrs by (simp add: set_attrs_def)

lemma builds_child_attrs:
  "builds (\<lambda>b. elem_c name attrs b \<bind> elem_attrs kvs \<bind> elem_up)
     (appendChild (set_attrs kvs (xmlElement name attrs)))"
  by (rule builds_child [OF builds_attrs'])

lemma builds_sctp_step:
  "builds (sctp_step K U st mediaItem) (add_children (sctp_elements K U st mediaItem))"
proof (cases "truthy (findLine U mediaItem ''a=sctp-port:'' (Some (session st)))")
  case True
  have "sctp_step K U st mediaItem
        = (\<lambda>b. elem_c ''sctpmap''
                [(''xmlns'', Some (SCTP_DATA_CHANNEL K)),
                 (''number'', Some (parseSCTPPort U
                    (str_undef (findLine U mediaItem ''a=sctp-port:'' (Some (session st)))))),
                 (''protocol'', Some ''webrtc-datachannel'')] b
              \<bind> elem_attrs [(''streams'', ''0'')] \<bind> elem_up)"
    using True by (intro ext) (simp add: sctp_step_def Let_def)
  then show ?thesis
    using True builds_child_attrs
    by (simp add: sctp_elements_def Let_def appendChild_add)
next
  case False
  show ?thesis
  proof (cases "truthy (findLine U mediaItem ''a=sctpmap:'' (Some (session st)))")
    case True
    let ?a = "parseSCTPMap U (str_undef (findLine U mediaItem ''a=sctpmap:'' (Some (session st))))"
    have "sctp_step K U st mediaItem
          = (\<lambda>b. elem_c ''sctpmap''
                    [(''xmlns'', Some (SCTP_DATA_CHANNEL K)),
                     (''number'', if 0 < length ?a then ?a ! 0 else None),
                     (''protocol'', if 1 < length ?a then ?a ! 1 else None)] b
                  \<bind> elem_attrs
                        [(''streams'', if 2 < length ?a then str_null (?a ! 2) else ''0'')]
                  \<bind> elem_up)"
      using False True by (intro ext) (simp add: sctp_step_def Let_def)
    then show ?thesis
      using False True builds_child_attrs
      by (simp add: sctp_elements_def Let_def appendChild_add)
  next
    case False2: False
    have "sctp_step K U st mediaItem = Some"
      using False False2 by (intro ext) (simp add: sctp_step_def Let_def)
    moreover have "add_children [] = (\<lambda>n. n)"
      by (rule ext) (simp add: add_children_Nil)
    ultimately show ?thesis
      using False False2 builds_Some by (simp add: sctp_elements_def Let_def)
  qed
qed

lemma builds_fingerprint_step:
  "builds (fingerprint_step K U st mediaItem line)
     (appendChild (fingerprint_element K U st mediaItem line))"
proof -
  let ?fp = "AList.update ''xmlns'' (DTLS_SRTP K) (parseFingerprint U line)"
  let ?kvs = "if truthy (findLine U mediaItem ''a=setup:'' (Some (session st)))
              then AList.update ''setup''
                     (drop 8 (str_undef (findLine U mediaItem ''a=setup:'' (Some (session st)))))
                     (AList.delete ''fingerprint'' ?fp)
              else AList.delete ''fingerprint'' ?fp"
  let ?txt = "str_undef (map_of ?fp ''fingerprint'')"
  have 1: "builds (\<lambda>b. elem_t ?txt b \<bind> elem_attrs ?kvs)
             (\<lambda>n. set_attrs ?kvs (appendChild (Text ?txt) n))"
    by (rule builds_bind [OF builds_t builds_attrs'])
  have "fingerprint_step K U st mediaItem line
        = (\<lambda>b. elem_c ''fingerprint'' [] b \<bind> (\<lambda>b. elem_t ?txt b \<bind> elem_attrs ?kvs) \<bind> elem_up)"
    by (intro ext) (simp add: fingerprint_step_def Let_def)
  then show ?thesis
    using builds_child [OF 1, of "''fingerprint''" "[]"]
    by (simp add: fingerprint_element_def Let_def)
qed

lemma builds_candidate_step:
  assumes "failICE st \<longrightarrow> candidateToJingle U line \<noteq> None"
  shows "builds (candidate_step U st line) (add_children (emitted_candidate U st line))"
proof -
  let ?cand = "if failICE st
               then map_option (AList.update ''ip'' ''1.1.1.1'') (candidateToJingle U line)
               else candidateToJingle U line"
  let ?protocol = "case ?cand of None \<Rightarrow> []
                   | Some cand \<Rightarrow> (case map_of cand ''protocol'' of
                                     None \<Rightarrow> [] | Some p \<Rightarrow> toLowerCase p)"
  have step: "candidate_step U st line
        = (\<lambda>b. if candidate_dropped st ?protocol then Some b
               else elem_c ''candidate'' (case ?cand of None \<Rightarrow> [] | Some cand \<Rightarrow> defined cand) b
                    \<bind> elem_up)"
    using assms by (intro ext) (auto simp: candidate_step_def Let_def split: option.splits)
  show ?thesis
  proof (cases "candidate_dropped st ?protocol")
    case True
    have "add_children [] = (\<lambda>n. n)"
      by (rule ext) (simp add: add_children_Nil)
    then show ?thesis
      using True step builds_Some by (simp add: emitted_candidate_def Let_def)
  next
    case False
    then show ?thesis
      using step builds_child0 by (simp add: emitted_candidate_def Let_def appendChild_add)
  qed
qed

lemma builds_transportToJingle:
  assumes "i < length (media st)"
    and "failICE st \<longrightarrow>
           (\<forall>line \<in> set (findLines U (media st ! i) ''a=candidate:'' (Some (session st))).
              candidateToJingle U line \<noteq> None)"
  shows "builds (transportToJingle K U st i)
           (appendChild (transport_element K U st (media st ! i)))"
proof -
  let ?m = "media st ! i"
  let ?fps = "findLines U ?m ''a=fingerprint:'' (Some (session st))"
  let ?cands = "findLines U ?m ''a=candidate:'' (Some (session st))"
  have fp: "builds (forEach (fingerprint_step K U st ?m) ?fps)
              (add_children (map (fingerprint_element K U st ?m) ?fps))"
    using builds_forEach [of ?fps "fingerprint_step K U st ?m"
        "\<lambda>l. appendChild (fingerprint_element K U st ?m l)"]
      builds_fingerprint_step
    by (simp add: fold_appendChild)
  have cd: "builds (forEach (candidate_step U st) ?cands)
              (add_children (concat (map (emitted_candidate U st) ?cands)))"
    using builds_forEach [of ?cands "candidate_step U st"
        "\<lambda>l. add_children (emitted_candidate U st l)"]
      builds_candidate_step assms(2)
    by (simp add: fold_add_children)
  let ?ice = "\<lambda>e. case iceparams U ?m (Some (session st)) of
                     None \<Rightarrow> Some e
                   | Some iceParameters \<Rightarrow>
                       elem_attrs (AList.update ''xmlns'' (ICE_UDP_TRANSPORT K) iceParameters) e
                       \<bind> forEach (candidate_step U st) ?cands"
  let ?iceF = "\<lambda>n. case iceparams U ?m (Some (session st)) of
                     None \<Rightarrow> n
                   | Some iceParameters \<Rightarrow>
                       add_children (concat (map (emitted_candidate U st) ?cands))
                         (set_attrs (AList.update ''xmlns'' (ICE_UDP_TRANSPORT K) iceParameters) n)"
  have ice: "builds ?ice ?iceF"
  proof (cases "iceparams U ?m (Some (session st))")
    case None
    then show ?thesis using builds_Some by simp
  next
    case (Some ip)
    then show ?thesis
      using builds_bind [OF builds_attrs' cd, of "AList.update ''xmlns'' (ICE_UDP_TRANSPORT K) ip"]
      by simp
  qed
  have inner: "builds (\<lambda>b. (sctp_step K U st ?m b \<bind> forEach (fingerprint_step K U st ?m) ?fps) \<bind> ?ice)
                 (\<lambda>n. ?iceF (add_children (map (fingerprint_element K U st ?m) ?fps)
                                (add_children (sctp_elements K U st ?m) n)))"
    by (rule builds_bind [OF builds_bind [OF builds_sctp_step fp] ice])
  have eq: "transportToJingle K U st i
        = (\<lambda>b. elem_c ''transport'' [] b
               \<bind> (\<lambda>b. (sctp_step K U st ?m b \<bind> forEach (fingerprint_step K U st ?m) ?fps) \<bind> ?ice)
               \<bind> elem_up)"
    using assms(1) by (intro ext) (simp add: transportToJingle_def Let_def)
  have "?iceF (add_children (map (fingerprint_element K U st ?m) ?fps)
                 (add_children (sctp_elements K U st ?m) (xmlElement ''transport'' [])))
        = transport_element K U st ?m"
    by (simp add: transport_element_def Let_def add_children_add split: option.splits)
  then show ?thesis
    unfolding eq using builds_child [OF inner, of "''transport''" "[]"] by simp
qed

lemma appends_those_forEach:
  "appends (forEach (\<lambda>x b. elem_c (name x) (attrs x) b \<bind> elem_up) xs)"
  by (rule appends_forEach) (rule appends_child0)

lemma appends_rtcpFbToJingle:
  "i < length (media st) \<Longrightarrow> appends (\<lambda>b. rtcpFbToJingle K U st i b pt)"
  using builds_rtcpFbToJingle appendsI by blast

lemma appends_payload_step:
  assumes "i < length (media st)"
  shows "appends (payload_step K U st i mediaItem format)"
proof -
  let ?fm = "findLine U mediaItem (''a=fmtp:'' @ format) None"
  let ?P = "\<lambda>b. if truthy ?fm
                 then forEach (\<lambda>param e'. elem_c ''parameter'' (defined param) e' \<bind> elem_up)
                        (parseFmtp U (str_undef ?fm)) b
                 else Some b"
  have p: "appends ?P"
    by (rule appends_if) (rule appends_those_forEach, rule appends_Some)
  have "appends (\<lambda>b. ?P b \<bind> (\<lambda>e. rtcpFbToJingle K U st i e format))"
    by (rule appends_bind [OF p appends_rtcpFbToJingle [OF assms]])
  then obtain F where F: "builds (\<lambda>b. ?P b \<bind> (\<lambda>e. rtcpFbToJingle K U st i e format)) F"
    using appends_builds by blast
  have "payload_step K U st i mediaItem format
        = (\<lambda>b. elem_c ''payload-type''
                  (defined (parseRTPMap U (findLine U mediaItem (''a=rtpmap:'' @ format) None))) b
               \<bind> (\<lambda>b. ?P b \<bind> (\<lambda>e. rtcpFbToJingle K U st i e format))
               \<bind> elem_up)"
    unfolding payload_step_def Let_def by (intro ext) simp
  then show ?thesis using appends_child [OF F] by simp
qed

lemma appends_source_step: "appends (source_step K U entry)"
proof -
  let ?I = "\<lambda>e. if truthy (parseMSIDAttribute U (snd entry))
                 then elem_c ''parameter'' [] e
                      \<bind> elem_attrs [(''name'', ''msid''),
                                       (''value'', str_undef (parseMSIDAttribute U (snd entry)))]
                      \<bind> elem_up
                 else Some e"
  have "appends ?I"
    by (rule appends_if) (rule appends_child [OF builds_attrs], rule appends_Some)
  then obtain F where F: "builds ?I F" using appends_builds by blast
  have "source_step K U entry
        = (\<lambda>b. elem_c ''source''
                  [(''ssrc'', Some (fst entry)),
                   (''name'', parseSourceNameLine U (snd entry)),
                   (''videoType'', parseVideoTypeLine U (snd entry)),
                   (''xmlns'', Some (SOURCE_ATTRIBUTES K))] b \<bind> ?I \<bind> elem_up)"
    unfolding source_step_def by (intro ext) simp
  then show ?thesis using appends_child [OF F] by simp
qed

lemma appends_ssrc_group_step: "appends (ssrc_group_step K U line)"
proof (cases "parseSSRCGroupLine U line")
  case (Pair semantics ssrcs)
  show ?thesis
  proof (cases "ssrcs = []")
    case True
    then have "ssrc_group_step K U line = Some"
      using Pair by (intro ext) (simp add: ssrc_group_step_def)
    then show ?thesis using appends_Some by simp
  next
    case False
    obtain F where F: "builds (forEach (\<lambda>s e. elem_c ''source'' [(''ssrc'', Some s)] e \<bind> elem_up) ssrcs) F"
      using appends_builds [OF appends_those_forEach [of "\<lambda>_. ''source''" "\<lambda>s. [(''ssrc'', Some s)]" ssrcs]]
      by blast
    have "ssrc_group_step K U line
          = (\<lambda>b. elem_c ''ssrc-group''
                    [(''semantics'', semantics), (''xmlns'', Some (SOURCE_ATTRIBUTES K))] b
                 \<bind> forEach (\<lambda>s e. elem_c ''source'' [(''ssrc'', Some s)] e \<bind> elem_up) ssrcs
                 \<bind> elem_up)"
      using Pair False by (intro ext) (simp add: ssrc_group_step_def)
    then show ?thesis using appends_child [OF F] by simp
  qed
qed

lemma those_map_Some:
  "(\<forall>x \<in> set xs. f x \<noteq> None) \<Longrightarrow> \<exists>ys. those (map f xs) = Some ys"
  by (induction xs) auto

lemma appends_rid_step:
  assumes "rids_ok K U mediaItem"
  shows "appends (rid_step K U mediaItem)"
proof (cases "findLines U mediaItem ''a=rid:'' None \<noteq> [] \<and> usesRidsForSimulcast K")
  case False
  then have "rid_step K U mediaItem = Some"
    by (intro ext) (auto simp: rid_step_def Let_def)
  then show ?thesis using appends_Some by simp
next
  case True
  then obtain rids where rids: "those (map rid_of (findLines U mediaItem ''a=rid:'' None)) = Some rids"
    using assms those_map_Some [of "findLines U mediaItem ''a=rid:'' None" rid_of]
    by (auto simp: rids_ok_def)
  let ?A = "forEach (\<lambda>rid e. elem_c ''source''
               [(''rid'', Some rid), (''xmlns'', Some (SOURCE_ATTRIBUTES K))] e \<bind> elem_up) rids"
  let ?G = "forEach (\<lambda>rid e'. elem_c ''source'' [(''rid'', Some rid)] e' \<bind> elem_up) rids"
  let ?B = "\<lambda>e. if truthy (findLine U mediaItem ''a=simulcast:'' None)
                 then elem_c ''rid-group''
                        [(''semantics'', Some ''SIM''), (''xmlns'', Some (SOURCE_ATTRIBUTES K))] e
                      \<bind> ?G \<bind> elem_up
                 else Some e"
  have a: "appends ?A"
    by (rule appends_those_forEach
          [of "\<lambda>_. ''source''" "\<lambda>rid. [(''rid'', Some rid), (''xmlns'', Some (SOURCE_ATTRIBUTES K))]"])
  obtain F where F: "builds ?G F"
    using appends_builds [OF appends_those_forEach [of "\<lambda>_. ''source''" "\<lambda>rid. [(''rid'', Some rid)]" rids]]
    by blast
  have b: "appends ?B"
    by (rule appends_if) (rule appends_child [OF F], rule appends_Some)
  have "rid_step K U mediaItem = (\<lambda>e. ?A e \<bind> ?B)"
    using True rids by (intro ext) (simp add: rid_step_def Let_def)
  then show ?thesis using appends_bind [OF a b] by simp
qed

lemma ex_builds_if:
  "\<exists>F. builds B1 F \<Longrightarrow> \<exists>F. builds B2 F \<Longrightarrow> \<exists>F. builds (\<lambda>b. if c then B1 b else B2 b) F"
  by (cases c) simp_all

lemma appends_extmap_step: "appends (extmap_step K U line)"
proof -
  let ?d = "e_direction (parseExtmap U line)"
  let ?I = "\<lambda>e. if ?d = Some (SENDONLY K) then elem_attrs [(''senders'', ''responder'')] e
                 else if ?d = Some (RECVONLY K) then elem_attrs [(''senders'', ''initiator'')] e
                 else if ?d = Some (SENDRECV K) then elem_attrs [(''senders'', ''both'')] e
                 else if ?d = Some (INACTIVE K) then elem_attrs [(''senders'', ''none'')] e
                 else Some e"
  have "\<exists>F. builds ?I F"
    by (intro ex_builds_if) (blast intro: builds_attrs builds_Some)+
  then obtain F where F: "builds ?I F" by blast
  have "extmap_step K U line
        = (\<lambda>b. elem_c ''rtp-hdrext''
                  [(''xmlns'', Some (RTP_HEADER_EXTENSIONS K)), (''uri'', e_uri (parseExtmap U line)),
                   (''id'', e_value (parseExtmap U line))] b \<bind> ?I \<bind> elem_up)"
    unfolding extmap_step_def Let_def by (intro ext) simp
  then show ?thesis using appends_child [OF F] by simp
qed

lemma appends_description_step:
  assumes "i < length (media st)" "rids_ok K U mediaItem"
  shows "appends (description_step K U st i mediaItem ml mt ssrc)"
proof -
  let ?B1 = "forEach (payload_step K U st i mediaItem) (m_fmt ml)"
  let ?B2 = "\<lambda>e. if truthy ssrc
                  then forEach (source_step K U) (parseSSRC U mediaItem) e
                       \<bind> forEach (ssrc_group_step K U) (findLines U mediaItem ''a=ssrc-group:'' None)
                  else Some e"
  let ?B3 = "rid_step K U mediaItem"
  let ?B4 = "\<lambda>e. if truthy (findLine U mediaItem ''a=rtcp-mux'' None)
                  then elem_c ''rtcp-mux'' [] e \<bind> elem_up else Some e"
  let ?B5 = "\<lambda>e. rtcpFbToJingle K U st i e ''*''"
  let ?B6 = "forEach (extmap_step K U) (findLines U mediaItem ''a=extmap:'' (Some (session st)))"
  let ?B7 = "\<lambda>e. if truthy (findLine U mediaItem ''a=extmap-allow-mixed'' (Some (session st)))
                  then elem_c ''extmap-allow-mixed'' [(''xmlns'', Some (RTP_HEADER_EXTENSIONS K))] e
                       \<bind> elem_up
                  else Some e"
  have 1: "appends ?B1"
    by (rule appends_forEach) (rule appends_payload_step [OF assms(1)])
  have 2: "appends ?B2"
    by (rule appends_if)
       (rule appends_bind, rule appends_forEach, rule appends_source_step,
        rule appends_forEach, rule appends_ssrc_group_step, rule appends_Some)
  have 3: "appends ?B3" by (rule appends_rid_step [OF assms(2)])
  have 4: "appends ?B4" by (rule appends_if) (rule appends_child0, rule appends_Some)
  have 5: "appends ?B5" by (rule appends_rtcpFbToJingle [OF assms(1)])
  have 6: "appends ?B6" by (rule appends_forEach) (rule appends_extmap_step)
  have 7: "appends ?B7" by (rule appends_if) (rule appends_child0, rule appends_Some)
  have "appends (\<lambda>b. ?B1 b \<bind> ?B2 \<bind> ?B3 \<bind> ?B4 \<bind> ?B5 \<bind> ?B6 \<bind> ?B7)"
    by (intro appends_bind 1 2 3 4 5 6 7)
  then obtain F where F: "builds (\<lambda>b. ?B1 b \<bind> ?B2 \<bind> ?B3 \<bind> ?B4 \<bind> ?B5 \<bind> ?B6 \<bind> ?B7) F"
    using appends_builds by blast
  have "description_step K U st i mediaItem ml mt ssrc
        = (\<lambda>b. elem_c ''description'' [(''xmlns'', Some (RTP_MEDIA K)), (''media'', Some mt)] b
               \<bind> (\<lambda>b. ?B1 b \<bind> ?B2 \<bind> ?B3 \<bind> ?B4 \<bind> ?B5 \<bind> ?B6 \<bind> ?B7)
               \<bind> elem_up)"
    unfolding description_step_def by (intro ext) simp
  then show ?thesis using appends_child [OF F] by simp
qed

lemma set_attrs_append: "set_attrs (xs @ ys) n = set_attrs ys (set_attrs xs n)"
  by (simp add: set_attrs_def)

lemma set_attrs_Nil: "set_attrs [] n = n"
  by (simp add: set_attrs_def)

lemma builds_senders_step:
  "builds (senders_step K U st mediaItem ml)
     (set_attrs (direction_senders K U mediaItem
                 @ (if is_rejected U st mediaItem ml then [(''senders'', ''rejected'')] else [])))"
proof -
  let ?D = "\<lambda>elem. if truthy (findLine U mediaItem (''a='' @ SENDRECV K) None)
      then elem_attrs [(''senders'', ''both'')] elem
      else if truthy (findLine U mediaItem (''a='' @ SENDONLY K) None)
      then elem_attrs [(''senders'', ''initiator'')] elem
      else if truthy (findLine U mediaItem (''a='' @ RECVONLY K) None)
      then elem_attrs [(''senders'', ''responder'')] elem
      else if truthy (findLine U mediaItem (''a='' @ INACTIVE K) None)
      then elem_attrs [(''senders'', ''none'')] elem
      else Some elem"
  let ?R = "\<lambda>e. if is_rejected U st mediaItem ml
                 then elem_attrs [(''senders'', ''rejected'')] e else Some e"
  have idn: "(\<lambda>n. n) = set_attrs []"
    by (rule ext) (simp add: set_attrs_Nil)
  have d: "builds ?D (set_attrs (direction_senders K U mediaItem))"
    using builds_attrs' builds_Some by (simp add: direction_senders_def idn [symmetric])
  have r: "builds ?R (set_attrs (if is_rejected U st mediaItem ml
                                  then [(''senders'', ''rejected'')] else []))"
    using builds_attrs' builds_Some by (simp add: idn [symmetric])
  have "senders_step K U st mediaItem ml = (\<lambda>b. ?D b \<bind> ?R)"
    unfolding senders_step_def is_rejected_def by (intro ext) simp
  moreover have "(\<lambda>n. set_attrs (if is_rejected U st mediaItem ml
                                    then [(''senders'', ''rejected'')] else [])
                         (set_attrs (direction_senders K U mediaItem) n))
      = set_attrs (direction_senders K U mediaItem
                   @ (if is_rejected U st mediaItem ml then [(''senders'', ''rejected'')] else []))"
    by (rule ext) (simp add: set_attrs_append)
  ultimately show ?thesis
    using builds_bind [OF d r] by simp
qed

lemma builds_new_content:
  assumes "i < length (media st)" "media st ! i = mediaItem"
    and "rids_ok K U mediaItem" "candidates_ok U st mediaItem"
  shows "\<exists>ks. builds (new_content K U st cr i mediaItem ml mt ssrc)
           (appendChild
              (set_attrs (direction_senders K U mediaItem
                          @ (if is_rejected U st mediaItem ml then [(''senders'', ''rejected'')] else []))
                 (add_children ks
                    (xmlElement ''content''
                       [(''creator'', Some cr),
                        (''name'', Some (if isP2P st
                                         then parseMID U (findLine U mediaItem ''a=mid:'' None)
                                         else mt))]))))"
proof -
  let ?L = "\<lambda>e. case initialLastN st of
                   Some n \<Rightarrow>
                     if mt = VIDEO K
                     then elem_c ''initial-last-n''
                            [(''xmlns'', Some ''jitsi:colibri2''), (''value'', Some n)] e
                          \<bind> elem_up
                     else Some e
                 | None \<Rightarrow> Some e"
  let ?Dn = "\<lambda>e. if mt = AUDIO K \<or> mt = VIDEO K
                  then description_step K U st i mediaItem ml mt ssrc e
                  else Some e"
  have l: "appends ?L"
  proof (cases "initialLastN st")
    case None
    then show ?thesis using appends_Some by simp
  next
    case (Some k)
    have "appends (\<lambda>e. if mt = VIDEO K
                        then elem_c ''initial-last-n''
                               [(''xmlns'', Some ''jitsi:colibri2''), (''value'', Some k)] e
                             \<bind> elem_up
                        else Some e)"
      by (rule appends_if) (rule appends_child0, rule appends_Some)
    then show ?thesis using Some by simp
  qed
  have d: "appends ?Dn"
    by (rule appends_if) (rule appends_description_step [OF assms(1,3)], rule appends_Some)
  have t: "appends (transportToJingle K U st i)"
    using builds_transportToJingle [of i st U K] assms appendsI
    by (simp add: candidates_ok_def appendChild_add)
  have "appends (\<lambda>b. ?L b \<bind> ?Dn \<bind> transportToJingle K U st i)"
    by (intro appends_bind l d t)
  then obtain ks where ks: "builds (\<lambda>b. ?L b \<bind> ?Dn \<bind> transportToJingle K U st i) (add_children ks)"
    unfolding appends_def by blast
  let ?S = "set_attrs (direction_senders K U mediaItem
              @ (if is_rejected U st mediaItem ml then [(''senders'', ''rejected'')] else []))"
  have inner: "builds (\<lambda>b. (?L b \<bind> ?Dn \<bind> transportToJingle K U st i) \<bind> senders_step K U st mediaItem ml)
                 (\<lambda>n. ?S (add_children ks n))"
    by (rule builds_bind [OF ks builds_senders_step])
  have eq: "new_content K U st cr i mediaItem ml mt ssrc
        = (\<lambda>b. elem_c ''content''
                  [(''creator'', Some cr),
                   (''name'', Some (if isP2P st
                                    then parseMID U (findLine U mediaItem ''a=mid:'' None)
                                    else mt))] b
               \<bind> (\<lambda>b. (?L b \<bind> ?Dn \<bind> transportToJingle K U st i) \<bind> senders_step K U st mediaItem ml)
               \<bind> elem_up)"
    unfolding new_content_def Let_def by (intro ext) simp
  show ?thesis
    unfolding eq by (rule exI [of _ ks]) (rule builds_child [OF inner])
qed


section \<open>The tree only grows\<close>

lemma upd_first_None:
  "(upd_first P f ks = None) = (\<not> (\<exists>k \<in> set ks. has_node P k))"
  by (induction P f ks rule: upd_first.induct) (auto split: option.splits)



















section \<open>One section of the description in the stanza\<close>

lemma section_step_cases:
  "section_step K U st cr (i, mediaItem) b
   = (case upd_first (is_created_content (resolved_type K U mediaItem)) (merge_section K U mediaItem)
             (childNodes (nodeTree b)) of
        Some ks \<Rightarrow> Some (b \<lparr> nodeTree := set_children ks (nodeTree b) \<rparr>)
      | None \<Rightarrow> new_content K U st cr i mediaItem
                  (parseMLine U (case split CRLF mediaItem of [] \<Rightarrow> [] | l # _ \<Rightarrow> l))
                  (resolved_type K U mediaItem) (first_ssrc U mediaItem) b)"
proof -
  have "merge_section K U mediaItem
        = (\<lambda>content. if truthy (first_ssrc U mediaItem)
                      then append_to_descriptions
                             (map (source_element K U) (parseSSRC U mediaItem)
                              @ ssrc_group_elements K U mediaItem) content
                      else content)"
    by (rule ext) (simp add: merge_section_def merged_sources_def)
  then show ?thesis
    unfolding section_step_def resolved_type_def first_ssrc_def Let_def by simp
qed

lemma content_attributes:
  assumes "x = set_attrs S (add_children ks (xmlElement ''content'' [(''creator'', Some cr), (''name'', Some nm)]))"
    and "S = D @ R" "D = [] \<or> (\<exists>d. D = [(''senders'', d)])" "R = [] \<or> R = [(''senders'', ''rejected'')]"
  shows "tagName x = Some ''content''"
    and "getAttribute x ''creator'' = Some cr"
    and "getAttribute x ''name'' = Some nm"
    and "getAttribute x ''senders'' = (if R = [] then map_of D ''senders'' else Some ''rejected'')"
  using assms
  by (auto simp: set_attrs_def xmlElement_def getAttribute_def)

lemma section_step_new:
  assumes "node b = Some p" "sub_at p (nodeTree b) = Some n" "is_elem n"
    and "i < length (media st)" "media st ! i = mediaItem" "section_ok K U st mediaItem"
    and "\<not> has_created (resolved_type K U mediaItem) (nodeTree b)"
  shows "\<exists>x. section_step K U st cr (i, mediaItem) b
               = Some (b \<lparr> nodeTree := upd_at p (appendChild x) (nodeTree b) \<rparr>)
             \<and> tagName x = Some ''content''
             \<and> getAttribute x ''creator'' = Some cr
             \<and> getAttribute x ''name''
                 = Some (if isP2P st then parseMID U (findLine U mediaItem ''a=mid:'' None)
                         else resolved_type K U mediaItem)
             \<and> getAttribute x ''senders''
                 = (if is_rejected U st mediaItem
                         (parseMLine U (case split CRLF mediaItem of [] \<Rightarrow> [] | l # _ \<Rightarrow> l))
                    then Some ''rejected''
                    else map_of (direction_senders K U mediaItem) ''senders'')"
proof -
  let ?ml = "parseMLine U (case split CRLF mediaItem of [] \<Rightarrow> [] | l # _ \<Rightarrow> l)"
  let ?T = "resolved_type K U mediaItem"
  let ?nm = "if isP2P st then parseMID U (findLine U mediaItem ''a=mid:'' None) else ?T"
  let ?D = "direction_senders K U mediaItem"
  let ?R = "if is_rejected U st mediaItem ?ml then [(''senders'', ''rejected'')] else []"
  have none: "upd_first (is_created_content ?T) (merge_section K U mediaItem)
                (childNodes (nodeTree b)) = None"
    using assms(7) by (simp add: upd_first_None has_created_def)
  obtain ks where ks: "builds (new_content K U st cr i mediaItem ?ml ?T (first_ssrc U mediaItem))
           (appendChild (set_attrs (?D @ ?R)
              (add_children ks (xmlElement ''content'' [(''creator'', Some cr), (''name'', Some ?nm)]))))"
    using builds_new_content [OF assms(4,5), of K U cr ?ml ?T "first_ssrc U mediaItem"] assms(6)
    by (auto simp: section_ok_def)
  let ?x = "set_attrs (?D @ ?R)
              (add_children ks (xmlElement ''content'' [(''creator'', Some cr), (''name'', Some ?nm)]))"
  have step: "section_step K U st cr (i, mediaItem) b
              = Some (b \<lparr> nodeTree := upd_at p (appendChild ?x) (nodeTree b) \<rparr>)"
    using buildsD(1) [OF ks assms(1,2,3)] none by (simp add: section_step_cases)
  have D: "?D = [] \<or> (\<exists>d. ?D = [(''senders'', d)])"
    by (simp add: direction_senders_def)
  have R: "?R = [] \<or> ?R = [(''senders'', ''rejected'')]"
    by simp
  have a: "tagName ?x = Some ''content''" "getAttribute ?x ''creator'' = Some cr"
    "getAttribute ?x ''name'' = Some ?nm"
    "getAttribute ?x ''senders'' = (if ?R = [] then map_of ?D ''senders'' else Some ''rejected'')"
    using content_attributes [OF refl refl D R, of ks cr ?nm] by blast+
  have "getAttribute ?x ''senders''
        = (if is_rejected U st mediaItem ?ml then Some ''rejected'' else map_of ?D ''senders'')"
    using a(4) by simp
  then show ?thesis using step a(1,2,3) by blast
qed

















section \<open>Sections of the same media type\<close>













section \<open>Direction and senders\<close>

lemma jingle2media_direction:
  "\<exists>rest. jingle2media K U st content
     = j2m_mline K U content @ j2m_transport K U content @ j2m_candidates K U st content
       @ j2m_direction K content @ rest"
  unfolding jingle2media_def Let_def by (auto split: prod.splits)

text \<open>Claim C1, for a section that gets a content of its own. From the stanza: after the
  candidate lines and before the mid line, the text of a content has the send-only line for
  \<^verbatim>\<open>senders=initiator\<close>, the receive-only line for \<^verbatim>\<open>responder\<close>, the inactive line for
  \<^verbatim>\<open>none\<close>, the send-receive line for \<^verbatim>\<open>both\<close>, and no direction line for any other value.
  To the stanza: when the stanza \<open>b\<close> holds no content with a \<^verbatim>\<open>creator\<close> named as the
  section's media type, the step for the section appends a content \<open>x\<close>. Its \<^verbatim>\<open>senders\<close> is
  \<^verbatim>\<open>rejected\<close> if the port is 0 and neither the section nor the session has a bundle-only
  line, whatever the direction lines are. Otherwise it follows the direction line, by the
  same four pairs: \<^verbatim>\<open>both\<close> for a send-receive line, else \<^verbatim>\<open>initiator\<close> for a send-only
  line, else \<^verbatim>\<open>responder\<close> for a receive-only line, else \<^verbatim>\<open>none\<close> for an inactive line, and
  no \<^verbatim>\<open>senders\<close> attribute without any of them.\<close>

theorem senders_of_created_content:
  assumes "node b = Some p" and "valid p (nodeTree b)"
    and "i < length (media st)" and "media st ! i = mediaItem"
    and "section_ok K U st mediaItem"
    and "\<not> has_created (resolved_type K U mediaItem) (nodeTree b)"
  shows "(getAttribute content ''senders'' = Some ''initiator'' \<longrightarrow>
            (\<exists>rest. jingle2media K U st' content
               = j2m_mline K U content @ j2m_transport K U content @ j2m_candidates K U st' content
                 @ ''a='' @ SENDONLY K @ CRLF
                 @ ''a=mid:'' @ str_undef (getAttribute content ''name'') @ CRLF @ rest))
       \<and> (getAttribute content ''senders'' = Some ''responder'' \<longrightarrow>
            (\<exists>rest. jingle2media K U st' content
               = j2m_mline K U content @ j2m_transport K U content @ j2m_candidates K U st' content
                 @ ''a='' @ RECVONLY K @ CRLF
                 @ ''a=mid:'' @ str_undef (getAttribute content ''name'') @ CRLF @ rest))
       \<and> (getAttribute content ''senders'' = Some ''none'' \<longrightarrow>
            (\<exists>rest. jingle2media K U st' content
               = j2m_mline K U content @ j2m_transport K U content @ j2m_candidates K U st' content
                 @ ''a='' @ INACTIVE K @ CRLF
                 @ ''a=mid:'' @ str_undef (getAttribute content ''name'') @ CRLF @ rest))
       \<and> (getAttribute content ''senders'' = Some ''both'' \<longrightarrow>
            (\<exists>rest. jingle2media K U st' content
               = j2m_mline K U content @ j2m_transport K U content @ j2m_candidates K U st' content
                 @ ''a='' @ SENDRECV K @ CRLF
                 @ ''a=mid:'' @ str_undef (getAttribute content ''name'') @ CRLF @ rest))
       \<and> (getAttribute content ''senders'' \<noteq> Some ''initiator''
           \<and> getAttribute content ''senders'' \<noteq> Some ''responder''
           \<and> getAttribute content ''senders'' \<noteq> Some ''none''
           \<and> getAttribute content ''senders'' \<noteq> Some ''both'' \<longrightarrow>
            (\<exists>rest. jingle2media K U st' content
               = j2m_mline K U content @ j2m_transport K U content @ j2m_candidates K U st' content
                 @ ''a=mid:'' @ str_undef (getAttribute content ''name'') @ CRLF @ rest))
       \<and> (\<exists>x. section_step K U st cr (i, mediaItem) b
                 = Some (b \<lparr> nodeTree := upd_at p (appendChild x) (nodeTree b) \<rparr>)
              \<and> tagName x = Some ''content''
              \<and> getAttribute x ''creator'' = Some cr
              \<and> getAttribute x ''senders''
                  = (if is_rejected U st mediaItem (mline_of U mediaItem) then Some ''rejected''
                     else map_of (direction_senders K U mediaItem) ''senders'')
              \<and> (is_rejected U st mediaItem (mline_of U mediaItem)
                   \<longrightarrow> getAttribute x ''senders'' = Some ''rejected'')
              \<and> (\<not> is_rejected U st mediaItem (mline_of U mediaItem)
                  \<and> truthy (findLine U mediaItem (''a='' @ SENDRECV K) None)
                   \<longrightarrow> getAttribute x ''senders'' = Some ''both'')
              \<and> (\<not> is_rejected U st mediaItem (mline_of U mediaItem)
                  \<and> \<not> truthy (findLine U mediaItem (''a='' @ SENDRECV K) None)
                  \<and> truthy (findLine U mediaItem (''a='' @ SENDONLY K) None)
                   \<longrightarrow> getAttribute x ''senders'' = Some ''initiator'')
              \<and> (\<not> is_rejected U st mediaItem (mline_of U mediaItem)
                  \<and> \<not> truthy (findLine U mediaItem (''a='' @ SENDRECV K) None)
                  \<and> \<not> truthy (findLine U mediaItem (''a='' @ SENDONLY K) None)
                  \<and> truthy (findLine U mediaItem (''a='' @ RECVONLY K) None)
                   \<longrightarrow> getAttribute x ''senders'' = Some ''responder'')
              \<and> (\<not> is_rejected U st mediaItem (mline_of U mediaItem)
                  \<and> \<not> truthy (findLine U mediaItem (''a='' @ SENDRECV K) None)
                  \<and> \<not> truthy (findLine U mediaItem (''a='' @ SENDONLY K) None)
                  \<and> \<not> truthy (findLine U mediaItem (''a='' @ RECVONLY K) None)
                  \<and> truthy (findLine U mediaItem (''a='' @ INACTIVE K) None)
                   \<longrightarrow> getAttribute x ''senders'' = Some ''none'')
              \<and> (\<not> is_rejected U st mediaItem (mline_of U mediaItem)
                  \<and> \<not> truthy (findLine U mediaItem (''a='' @ SENDRECV K) None)
                  \<and> \<not> truthy (findLine U mediaItem (''a='' @ SENDONLY K) None)
                  \<and> \<not> truthy (findLine U mediaItem (''a='' @ RECVONLY K) None)
                  \<and> \<not> truthy (findLine U mediaItem (''a='' @ INACTIVE K) None)
                   \<longrightarrow> getAttribute x ''senders'' = None))"
proof -
  let ?pre = "\<lambda>tail. j2m_mline K U content @ j2m_transport K U content
                      @ j2m_candidates K U st' content @ tail"
  let ?mid = "\<lambda>tail. ''a=mid:'' @ str_undef (getAttribute content ''name'') @ CRLF @ tail"
  let ?s = "getAttribute content ''senders''"
  obtain rest where r: "jingle2media K U st' content = ?pre (j2m_direction K content @ rest)"
    using jingle2media_direction by blast
  have j1: "?s = Some ''initiator'' \<longrightarrow>
            (\<exists>rest. jingle2media K U st' content = ?pre (''a='' @ SENDONLY K @ CRLF @ ?mid rest))"
    unfolding r by (simp add: j2m_direction_def)
  have j2: "?s = Some ''responder'' \<longrightarrow>
            (\<exists>rest. jingle2media K U st' content = ?pre (''a='' @ RECVONLY K @ CRLF @ ?mid rest))"
    unfolding r by (simp add: j2m_direction_def)
  have j3: "?s = Some ''none'' \<longrightarrow>
            (\<exists>rest. jingle2media K U st' content = ?pre (''a='' @ INACTIVE K @ CRLF @ ?mid rest))"
    unfolding r by (simp add: j2m_direction_def)
  have j4: "?s = Some ''both'' \<longrightarrow>
            (\<exists>rest. jingle2media K U st' content = ?pre (''a='' @ SENDRECV K @ CRLF @ ?mid rest))"
    unfolding r by (simp add: j2m_direction_def)
  have j5: "?s \<noteq> Some ''initiator'' \<and> ?s \<noteq> Some ''responder'' \<and> ?s \<noteq> Some ''none''
            \<and> ?s \<noteq> Some ''both'' \<longrightarrow>
            (\<exists>rest. jingle2media K U st' content = ?pre (?mid rest))"
    unfolding r by (simp add: j2m_direction_def)
  obtain n where n: "sub_at p (nodeTree b) = Some n" "is_elem n"
    using assms(2) by (auto simp: valid_def)
  let ?rej = "is_rejected U st mediaItem (mline_of U mediaItem)"
  obtain x where x: "section_step K U st cr (i, mediaItem) b
               = Some (b \<lparr> nodeTree := upd_at p (appendChild x) (nodeTree b) \<rparr>)"
      "tagName x = Some ''content''" "getAttribute x ''creator'' = Some cr"
      "getAttribute x ''senders''
         = (if ?rej then Some ''rejected''
            else map_of (direction_senders K U mediaItem) ''senders'')"
    using section_step_new [OF assms(1) n assms(3,4,5,6), of cr] unfolding mline_of_def by blast
  have t0: "?rej \<longrightarrow> getAttribute x ''senders'' = Some ''rejected''"
    using x(4) by simp
  have t1: "\<not> ?rej \<and> truthy (findLine U mediaItem (''a='' @ SENDRECV K) None)
            \<longrightarrow> getAttribute x ''senders'' = Some ''both''"
    using x(4) by (simp add: direction_senders_def)
  have t2: "\<not> ?rej \<and> \<not> truthy (findLine U mediaItem (''a='' @ SENDRECV K) None)
            \<and> truthy (findLine U mediaItem (''a='' @ SENDONLY K) None)
            \<longrightarrow> getAttribute x ''senders'' = Some ''initiator''"
    using x(4) by (simp add: direction_senders_def)
  have t3: "\<not> ?rej \<and> \<not> truthy (findLine U mediaItem (''a='' @ SENDRECV K) None)
            \<and> \<not> truthy (findLine U mediaItem (''a='' @ SENDONLY K) None)
            \<and> truthy (findLine U mediaItem (''a='' @ RECVONLY K) None)
            \<longrightarrow> getAttribute x ''senders'' = Some ''responder''"
    using x(4) by (simp add: direction_senders_def)
  have t4: "\<not> ?rej \<and> \<not> truthy (findLine U mediaItem (''a='' @ SENDRECV K) None)
            \<and> \<not> truthy (findLine U mediaItem (''a='' @ SENDONLY K) None)
            \<and> \<not> truthy (findLine U mediaItem (''a='' @ RECVONLY K) None)
            \<and> truthy (findLine U mediaItem (''a='' @ INACTIVE K) None)
            \<longrightarrow> getAttribute x ''senders'' = Some ''none''"
    using x(4) by (simp add: direction_senders_def)
  have t5: "\<not> ?rej \<and> \<not> truthy (findLine U mediaItem (''a='' @ SENDRECV K) None)
            \<and> \<not> truthy (findLine U mediaItem (''a='' @ SENDONLY K) None)
            \<and> \<not> truthy (findLine U mediaItem (''a='' @ RECVONLY K) None)
            \<and> \<not> truthy (findLine U mediaItem (''a='' @ INACTIVE K) None)
            \<longrightarrow> getAttribute x ''senders'' = None"
    using x(4) by (simp add: direction_senders_def)
  have sec: "\<exists>x. section_step K U st cr (i, mediaItem) b
                 = Some (b \<lparr> nodeTree := upd_at p (appendChild x) (nodeTree b) \<rparr>)
              \<and> tagName x = Some ''content''
              \<and> getAttribute x ''creator'' = Some cr
              \<and> getAttribute x ''senders''
                  = (if ?rej then Some ''rejected''
                     else map_of (direction_senders K U mediaItem) ''senders'')
              \<and> (?rej \<longrightarrow> getAttribute x ''senders'' = Some ''rejected'')
              \<and> (\<not> ?rej \<and> truthy (findLine U mediaItem (''a='' @ SENDRECV K) None)
                   \<longrightarrow> getAttribute x ''senders'' = Some ''both'')
              \<and> (\<not> ?rej \<and> \<not> truthy (findLine U mediaItem (''a='' @ SENDRECV K) None)
                  \<and> truthy (findLine U mediaItem (''a='' @ SENDONLY K) None)
                   \<longrightarrow> getAttribute x ''senders'' = Some ''initiator'')
              \<and> (\<not> ?rej \<and> \<not> truthy (findLine U mediaItem (''a='' @ SENDRECV K) None)
                  \<and> \<not> truthy (findLine U mediaItem (''a='' @ SENDONLY K) None)
                  \<and> truthy (findLine U mediaItem (''a='' @ RECVONLY K) None)
                   \<longrightarrow> getAttribute x ''senders'' = Some ''responder'')
              \<and> (\<not> ?rej \<and> \<not> truthy (findLine U mediaItem (''a='' @ SENDRECV K) None)
                  \<and> \<not> truthy (findLine U mediaItem (''a='' @ SENDONLY K) None)
                  \<and> \<not> truthy (findLine U mediaItem (''a='' @ RECVONLY K) None)
                  \<and> truthy (findLine U mediaItem (''a='' @ INACTIVE K) None)
                   \<longrightarrow> getAttribute x ''senders'' = Some ''none'')
              \<and> (\<not> ?rej \<and> \<not> truthy (findLine U mediaItem (''a='' @ SENDRECV K) None)
                  \<and> \<not> truthy (findLine U mediaItem (''a='' @ SENDONLY K) None)
                  \<and> \<not> truthy (findLine U mediaItem (''a='' @ RECVONLY K) None)
                  \<and> \<not> truthy (findLine U mediaItem (''a='' @ INACTIVE K) None)
                   \<longrightarrow> getAttribute x ''senders'' = None)"
    by (rule exI [of _ x]) (intro conjI x t0 t1 t2 t3 t4 t5)
  show ?thesis by (intro conjI j1 j2 j3 j4 j5 sec)
qed

theorem senders_of_created_content_witness:
  "getAttribute two_sources ''senders'' = Some ''initiator''
   \<and> (\<exists>rest. jingle2media constants SDPUtil model_a two_sources
         = j2m_mline constants SDPUtil two_sources @ j2m_transport constants SDPUtil two_sources
           @ j2m_candidates constants SDPUtil model_a two_sources
           @ ''a='' @ ''sendonly'' @ CRLF @ ''a=mid:'' @ ''audio'' @ CRLF @ rest)
   \<and> m_port (mline_of SDPUtil (media model_v0 ! 0)) = Some ''0''
   \<and> truthy (findLine SDPUtil (media model_v0 ! 0) ''a=recvonly'' None)
   \<and> (\<exists>x. section_step constants SDPUtil model_v0 ''initiator'' (0, media model_v0 ! 0) stanza0
              = Some (stanza0 \<lparr> nodeTree := upd_at [] (appendChild x) (nodeTree stanza0) \<rparr>)
           \<and> getAttribute x ''senders'' = Some ''rejected'')
   \<and> m_port (mline_of SDPUtil (media model_r ! 0)) = Some ''9''
   \<and> (\<exists>x. section_step constants SDPUtil model_r ''initiator'' (0, media model_r ! 0) stanza0
              = Some (stanza0 \<lparr> nodeTree := upd_at [] (appendChild x) (nodeTree stanza0) \<rparr>)
           \<and> getAttribute x ''senders'' = Some ''responder'')"
proof -
  have n: "node stanza0 = Some []" by code_simp
  have v: "valid [] (nodeTree stanza0)" by (simp add: valid_def stanza0_def is_elem_def)
  have s: "getAttribute two_sources ''senders'' = Some ''initiator''" by code_simp
  have k1: "SENDONLY constants = ''sendonly''" by code_simp
  have k2: "str_undef (getAttribute two_sources ''name'') = ''audio''" by code_simp
  have l0: "0 < length (media model_v0)" by code_simp
  have o0: "section_ok constants SDPUtil model_v0 (media model_v0 ! 0)" by code_simp
  have h0: "\<not> has_created (resolved_type constants SDPUtil (media model_v0 ! 0)) (nodeTree stanza0)"
    by code_simp
  have p0: "m_port (mline_of SDPUtil (media model_v0 ! 0)) = Some ''0''" by code_simp
  have d0: "truthy (findLine SDPUtil (media model_v0 ! 0) ''a=recvonly'' None)" by code_simp
  have r0: "is_rejected SDPUtil model_v0 (media model_v0 ! 0) (mline_of SDPUtil (media model_v0 ! 0))"
    by code_simp
  have l1: "0 < length (media model_r)" by code_simp
  have o1: "section_ok constants SDPUtil model_r (media model_r ! 0)" by code_simp
  have h1: "\<not> has_created (resolved_type constants SDPUtil (media model_r ! 0)) (nodeTree stanza0)"
    by code_simp
  have p1: "m_port (mline_of SDPUtil (media model_r ! 0)) = Some ''9''" by code_simp
  have r1: "\<not> is_rejected SDPUtil model_r (media model_r ! 0) (mline_of SDPUtil (media model_r ! 0))"
    by code_simp
  have d1: "\<not> truthy (findLine SDPUtil (media model_r ! 0) (''a='' @ SENDRECV constants) None)"
    "\<not> truthy (findLine SDPUtil (media model_r ! 0) (''a='' @ SENDONLY constants) None)"
    "truthy (findLine SDPUtil (media model_r ! 0) (''a='' @ RECVONLY constants) None)"
    by code_simp+
  note t0 = senders_of_created_content [OF n v l0 refl o0 h0, of two_sources model_a "''initiator''"]
  note t1 = senders_of_created_content [OF n v l1 refl o1 h1, of two_sources model_a "''initiator''"]
  note sec0 = conjunct2 [OF conjunct2 [OF conjunct2 [OF conjunct2 [OF conjunct2 [OF t0]]]]]
  note sec1 = conjunct2 [OF conjunct2 [OF conjunct2 [OF conjunct2 [OF conjunct2 [OF t1]]]]]
  have a: "\<exists>rest. jingle2media constants SDPUtil model_a two_sources
         = j2m_mline constants SDPUtil two_sources @ j2m_transport constants SDPUtil two_sources
           @ j2m_candidates constants SDPUtil model_a two_sources
           @ ''a='' @ ''sendonly'' @ CRLF @ ''a=mid:'' @ ''audio'' @ CRLF @ rest"
    using mp [OF conjunct1 [OF t0] s] unfolding k1 k2 .
  have b: "\<exists>x. section_step constants SDPUtil model_v0 ''initiator'' (0, media model_v0 ! 0) stanza0
              = Some (stanza0 \<lparr> nodeTree := upd_at [] (appendChild x) (nodeTree stanza0) \<rparr>)
           \<and> getAttribute x ''senders'' = Some ''rejected''"
    using sec0
  proof (elim exE conjE)
    fix x
    assume 1: "section_step constants SDPUtil model_v0 ''initiator'' (0, media model_v0 ! 0) stanza0
              = Some (stanza0 \<lparr> nodeTree := upd_at [] (appendChild x) (nodeTree stanza0) \<rparr>)"
      and 2: "is_rejected SDPUtil model_v0 (media model_v0 ! 0) (mline_of SDPUtil (media model_v0 ! 0))
              \<longrightarrow> getAttribute x ''senders'' = Some ''rejected''"
    show ?thesis
      by (rule exI [of _ x]) (rule conjI [OF 1 mp [OF 2 r0]])
  qed
  have c: "\<exists>x. section_step constants SDPUtil model_r ''initiator'' (0, media model_r ! 0) stanza0
              = Some (stanza0 \<lparr> nodeTree := upd_at [] (appendChild x) (nodeTree stanza0) \<rparr>)
           \<and> getAttribute x ''senders'' = Some ''responder''"
    using sec1
  proof (elim exE conjE)
    fix x
    assume 1: "section_step constants SDPUtil model_r ''initiator'' (0, media model_r ! 0) stanza0
              = Some (stanza0 \<lparr> nodeTree := upd_at [] (appendChild x) (nodeTree stanza0) \<rparr>)"
      and 2: "\<not> is_rejected SDPUtil model_r (media model_r ! 0) (mline_of SDPUtil (media model_r ! 0))
              \<and> \<not> truthy (findLine SDPUtil (media model_r ! 0) (''a='' @ SENDRECV constants) None)
              \<and> \<not> truthy (findLine SDPUtil (media model_r ! 0) (''a='' @ SENDONLY constants) None)
              \<and> truthy (findLine SDPUtil (media model_r ! 0) (''a='' @ RECVONLY constants) None)
              \<longrightarrow> getAttribute x ''senders'' = Some ''responder''"
    have "getAttribute x ''senders'' = Some ''responder''"
      by (rule mp [OF 2]) (intro conjI r1 d1)
    then show ?thesis
      using 1 by (intro exI [of _ x] conjI)
  qed
  show ?thesis by (intro conjI s a p0 d0 b p1 c)
qed

text \<open>The second video section has port 0 and no bundle-only line, and is marked receive-only;
  it is merged into the content of the first, whose \<^verbatim>\<open>senders\<close> stays \<^verbatim>\<open>both\<close>: the stanza
  has neither \<^verbatim>\<open>rejected\<close> nor \<^verbatim>\<open>responder\<close>.\<close>

theorem merged_section_not_rejected:
  "is_rejected SDPUtil model_vv (media model_vv ! 1) (mline_of SDPUtil (media model_vv ! 1))
   \<and> truthy (findLine SDPUtil (media model_vv ! 1) ''a=recvonly'' None)
   \<and> map_option (\<lambda>r. map (\<lambda>c. (tagName c, getAttribute c ''name'', getAttribute c ''senders''))
                       (childNodes (nodeTree r)))
       (toJingle constants SDPUtil model_vv stanza0 ''initiator'')
     = Some [(Some ''content'', Some ''video'', Some ''both'')]"
  by code_simp


section \<open>Feedback lines\<close>

text \<open>Claim C8. A payload type whose only child is the feedback element for a type and a
  subtype is written as the feedback line of the payload id, and a section in which that line
  is the only feedback line of the payload id gives the stanza the same element back, when
  the line codec splits the line into the payload id, the type and the subtype. The type
  \<^verbatim>\<open>trr-int\<close> is written as a different element.\<close>

theorem feedback_round_trip:
  assumes "ty \<noteq> ''trr-int''"
    and "node b = Some p" and "valid p (nodeTree b)"
    and "i < length (media st)"
    and "findLines U (media st ! i) (''a=rtcp-fb:'' @ pt) None
         = [''a=rtcp-fb:'' @ pt @ '' '' @ ty @ '' '' @ sb]"
    and "parseRTCPFB U (''a=rtcp-fb:'' @ pt @ '' '' @ ty @ '' '' @ sb)
         = \<lparr> fb_pt = Some pt, fb_type = Some ty, fb_params = [sb] \<rparr>"
  shows "rtcpFbFromJingle K [Elem tg a [feedback_element K ty sb]] (Some pt)
           = ''a=rtcp-fb:'' @ pt @ '' '' @ ty @ '' '' @ sb @ CRLF
       \<and> rtcpFbToJingle K U st i b pt
           = Some (b \<lparr> nodeTree := upd_at p (appendChild (feedback_element K ty sb)) (nodeTree b) \<rparr>)"
proof -
  have one: "rtcpFbFromJingle K [Elem tg a [feedback_element K ty sb]] (Some pt)
           = ''a=rtcp-fb:'' @ pt @ '' '' @ ty @ '' '' @ sb @ CRLF"
    by (simp add: rtcpFbFromJingle_def feedback_element_def find_children_def tagged_ns_def
          getAttribute_def hasAttribute_def each_def str_null_def Let_def)
  obtain n where n: "sub_at p (nodeTree b) = Some n" "is_elem n"
    using assms(3) by (auto simp: valid_def)
  have e: "fb_element K U (''a=rtcp-fb:'' @ pt @ '' '' @ ty @ '' '' @ sb) = feedback_element K ty sb"
    unfolding fb_element_def assms(6) Let_def
    using assms(1) by (simp add: feedback_element_def xmlElement_def)
  have "rtcpFbToJingle K U st i b pt
        = Some (b \<lparr> nodeTree := upd_at p (add_children
                   (map (fb_element K U) (findLines U (media st ! i) (''a=rtcp-fb:'' @ pt) None)))
                   (nodeTree b) \<rparr>)"
    using buildsD(1) [OF builds_rtcpFbToJingle [OF assms(4)] assms(2) n] .
  moreover have "add_children (map (fb_element K U) (findLines U (media st ! i) (''a=rtcp-fb:'' @ pt) None))
                 = appendChild (feedback_element K ty sb)"
    unfolding assms(5) using e by (intro ext) (simp add: appendChild_add)
  ultimately show ?thesis using one by simp
qed

theorem feedback_round_trip_witness:
  "rtcpFbFromJingle constants
       [Elem ''payload-type'' [(''id'', ''100'')] [feedback_element constants ''nack'' ''pli'']]
       (Some ''100'')
     = ''a=rtcp-fb:100 nack pli'' @ CRLF
   \<and> findLines SDPUtil (media model_fb ! 0) ''a=rtcp-fb:100'' None = [''a=rtcp-fb:100 nack pli'']
   \<and> rtcpFbToJingle constants SDPUtil model_fb 0 stanza_pt ''100''
     = Some (stanza_pt \<lparr> nodeTree :=
               Elem ''payload-type'' [(''id'', ''100'')] [feedback_element constants ''nack'' ''pli''] \<rparr>)"
proof -
  have t: "''nack'' \<noteq> ''trr-int''" by simp
  have n: "node stanza_pt = Some []" by code_simp
  have v: "valid [] (nodeTree stanza_pt)" by (simp add: valid_def stanza_pt_def is_elem_def)
  have l: "0 < length (media model_fb)" by code_simp
  have f: "findLines SDPUtil (media model_fb ! 0) (''a=rtcp-fb:'' @ ''100'') None
           = [''a=rtcp-fb:'' @ ''100'' @ '' '' @ ''nack'' @ '' '' @ ''pli'']"
    by code_simp
  have q: "parseRTCPFB SDPUtil (''a=rtcp-fb:'' @ ''100'' @ '' '' @ ''nack'' @ '' '' @ ''pli'')
           = \<lparr> fb_pt = Some ''100'', fb_type = Some ''nack'', fb_params = [''pli''] \<rparr>"
    by code_simp
  have u: "upd_at [] (appendChild (feedback_element constants ''nack'' ''pli'')) (nodeTree stanza_pt)
           = Elem ''payload-type'' [(''id'', ''100'')] [feedback_element constants ''nack'' ''pli'']"
    by (simp add: stanza_pt_def)
  show ?thesis
    using feedback_round_trip [OF t n v l f q, of constants "''payload-type''" "[(''id'', ''100'')]"]
      f u by simp
qed


section \<open>Candidates\<close>






















end
